theory Spec2Isabelle
  imports Main "HOL-Library.AList"
begin

section \<open>Values of the host language\<close>

text \<open>
  The decorators of \<^verbatim>\<open>types/index.ts\<close> receive untyped values (\<^verbatim>\<open>any\<close>): class
  constructors, type objects of the wrapped schema library, arrays, plain records,
  property values. Each kind that the code distinguishes is a constructor here.

  An object with string keys is an association list in property order with pairwise
  distinct keys; \<open>AList.update\<close> is the assignment \<^verbatim>\<open>obj[key] = value\<close>: it replaces
  the value of a present key in place and appends an absent key at the end. Property names
  are taken to be ordinary names: the reordering of array-index keys and the accessor
  \<^verbatim>\<open>__proto__\<close> are outside this model.
\<close>

type_synonym 'v js_object = "(string \<times> 'v) list"

datatype js_value =
    JSUndefined
  | JSNull
  | JSBoolean bool
  | JSNumber int
  | JSString string
  | JSFunction nat
  | JSObject nat

text \<open>The operand test of \<^verbatim>\<open>a || b\<close>: every value is truthy except these.\<close>

fun truthy :: "js_value \<Rightarrow> bool" where
  "truthy JSUndefined = False"
| "truthy JSNull = False"
| "truthy (JSBoolean b) = b"
| "truthy (JSNumber n) = (n \<noteq> 0)"
| "truthy (JSString s) = (s \<noteq> [])"
| "truthy (JSFunction f) = True"
| "truthy (JSObject ob) = True"

definition or_value :: "js_value \<Rightarrow> js_value \<Rightarrow> js_value" where
  "or_value a b = (if truthy a then a else b)"

text \<open>
  \<^verbatim>\<open>a || b\<close> on optional strings (\<open>None\<close> is \<^verbatim>\<open>undefined\<close>): the empty string is falsy
  too, so it gives way to \<open>b\<close> as \<^verbatim>\<open>undefined\<close> does.
\<close>

definition or_string :: "string option \<Rightarrow> string option \<Rightarrow> string option" where
  "or_string a b = (case a of None \<Rightarrow> b | Some s \<Rightarrow> if s = [] then b else Some s)"

definition or_name :: "string option \<Rightarrow> string \<Rightarrow> string" where
  "or_name a b = (case a of None \<Rightarrow> b | Some s \<Rightarrow> if s = [] then b else s)"

text \<open>\<^verbatim>\<open>{...a, ...b}\<close>: a fresh object with the properties of \<open>a\<close>, then those of \<open>b\<close> assigned in order.\<close>

definition spread :: "'v js_object \<Rightarrow> 'v js_object \<Rightarrow> 'v js_object" where
  "spread a b = fold (\<lambda>(k, v). AList.update k v) b a"

text \<open>
  A class as a decorator sees it when it runs: its identity, \<^verbatim>\<open>target.name\<close>, and its own
  properties in the order of \<^verbatim>\<open>Object.getOwnPropertyNames\<close> (the built-in ones included).
  The \<^verbatim>\<open>target\<close> of a property decorator is the prototype of the class, and
  \<^verbatim>\<open>target.constructor\<close> is the class; the prototype is an object of the host that may
  change after the decorator has run, so its properties are part of the state (see
  \<open>prototypes\<close> below) and not of this value.
\<close>

record js_class =
  cid :: nat
  className :: string
  ownProperties :: "js_value js_object"

definition get_property :: "js_value js_object \<Rightarrow> string \<Rightarrow> js_value" where
  "get_property ob key = (case map_of ob key of None \<Rightarrow> JSUndefined | Some v \<Rightarrow> v)"

section \<open>Types of the wrapped schema library\<close>

text \<open>
  The configuration objects handed to the library's constructors. A resolver is either
  the library's \<^verbatim>\<open>defaultFieldResolver\<close> or the closure of lines 145-152, which holds the
  function found at the decorated property. The \<^verbatim>\<open>resolveType\<close> closure of an interface
  (lines 264-273) holds \<^verbatim>\<open>opts.resolveType\<close>.
\<close>

datatype resolver = DefaultFieldResolver | TargetResolver nat

datatype type_resolver = ResolveType "nat option"

datatype 't argument_config =
  GraphQLArgumentConfig (arg_type: 't) (arg_description: "string option") (arg_defaultValue: js_value)

datatype 't field_config =
  GraphQLFieldConfig (field_args: "'t argument_config js_object") (field_type: 't)
    (field_description: "string option") (field_deprecationReason: "string option")
    (field_resolve: resolver)

datatype 't input_field_config =
  GraphQLInputFieldConfig (input_type: 't) (input_description: "string option")
    (input_deprecationReason: "string option") (input_defaultValue: js_value)

datatype enum_value_config =
  GraphQLEnumValueConfig (enum_value: js_value) (enum_description: "string option")
    (enum_deprecationReason: "string option")

datatype gql_type =
    GraphQLScalarType string
  | GraphQLList gql_type
  | GraphQLNonNull gql_type
  | GraphQLObjectType string "string option" "gql_type list" "gql_type field_config js_object"
  | GraphQLInterfaceType string "string option" type_resolver "gql_type field_config js_object"
  | GraphQLInputObjectType string "string option" "gql_type input_field_config js_object"
  | GraphQLEnumType string "string option" "enum_value_config js_object"

text \<open>\<^verbatim>\<open>ifaceType instanceof GraphQLInterfaceType\<close>\<close>

fun instanceof_GraphQLInterfaceType :: "gql_type \<Rightarrow> bool" where
  "instanceof_GraphQLInterfaceType (GraphQLInterfaceType n d r fs) = True"
| "instanceof_GraphQLInterfaceType t = False"

text \<open>
  What a decorator accepts where a type is expected (\<^verbatim>\<open>type?: any\<close>, the entries of
  \<^verbatim>\<open>config.args\<close>): nothing, a type object of the library, a class, an array, or the
  record \<^verbatim>\<open>{type, description, defaultValue}\<close> of \<^verbatim>\<open>ArgumentType\<close>.
\<close>

datatype type_ref =
    Undefined
  | GraphQL gql_type
  | ClassRef nat
  | ArrayRef "type_ref list"
  | ArgumentType type_ref "string option" js_value

text \<open>Lines 60-70.\<close>

definition Argument :: "type_ref \<Rightarrow> string option \<Rightarrow> js_value \<Rightarrow> type_ref" where
  "Argument type description defaultValue = ArgumentType type description defaultValue"

section \<open>Errors\<close>

text \<open>
  One constructor per \<^verbatim>\<open>throw\<close> of the source, carrying what its message interpolates;
  \<open>TypeError\<close> is the host language's error on reading a property of \<^verbatim>\<open>undefined\<close>;
  \<open>ReflectionError\<close> wraps whatever a helper of the reflection module throws.
\<close>

datatype error =
    FieldAlreadyDefined string nat
  | TypeIsNotOutput
  | TypeIsNotInput
  | FieldArgumentNotInput string type_ref
  | ProvidedInterfaceNotValid
  | TypeError
  | ReflectionError string

section \<open>The reflection registry\<close>

text \<open>
  The decorator configurations (lines 89-95, 164-168, 195-199, 250-254, 288-291, 325-328)
  and the two kinds of thunk a property decorator stores. A thunk is the closure of lines
  106-161 (respectively 179-192), represented by the variables it captures:
  \<^verbatim>\<open>type\<close>, \<^verbatim>\<open>config\<close>, \<^verbatim>\<open>target\<close> and \<^verbatim>\<open>key\<close>. The captured \<^verbatim>\<open>target\<close> is a
  reference: the thunk uses its identity only, and reads \<^verbatim>\<open>target[key]\<close> from the
  prototype as it is when the thunk is invoked. The entries of
  \<^verbatim>\<open>opts.interfaces\<close> are class references, as in the repository's example; a function
  value (\<^verbatim>\<open>opts.resolveType\<close>) is given by its identity.
\<close>

record FieldConfig =
  fc_args :: "type_ref js_object option"
  fc_description :: "string option"
  fc_deprecationReason :: "string option"

record InputFieldConfig =
  ifc_defaultValue :: js_value
  ifc_description :: "string option"
  ifc_deprecationReason :: "string option"

record ObjectTypeConfig =
  otc_name :: "string option"
  otc_description :: "string option"
  otc_interfaces :: "nat list option"

record InterfaceTypeConfig =
  itc_name :: "string option"
  itc_description :: "string option"
  itc_resolveType :: "nat option"

record InputObjectTypeConfig =
  iotc_name :: "string option"
  iotc_description :: "string option"

record EnumTypeConfig =
  etc_name :: "string option"
  etc_description :: "string option"

datatype field_thunk = FieldThunk type_ref FieldConfig js_class string

datatype input_field_thunk = InputFieldThunk type_ref InputFieldConfig js_class string

type_synonym UnmountedFieldMap = "field_thunk js_object"
type_synonym UnmountedInputFieldMap = "input_field_thunk js_object"

text \<open>Where a description or deprecation reason is attached.\<close>

datatype meta_target = OfClass nat | OfProperty nat string | OfStatic nat string

text \<open>
  Modelled from the spec: the reflection module \<^verbatim>\<open>../reflection\<close> is imported by the
  source (lines 36-49) and is not part of it. The spec describes it as a process-wide
  mapping from class to pending field thunks (keyed by name) and from class to the
  already-mounted external type, together with the metadata that decorators attach to
  classes and properties. A pending map holds the names registered in it and nothing
  else: what the map object may inherit from its prototype is decided by the module that
  creates it, and is not modelled.

  Beside the registry, the state holds what a thunk reads from the host when it is
  invoked: \<open>prototypes reg c\<close> are the properties found through the prototype of class
  \<open>c\<close> in state \<open>reg\<close>. No decorator of the source writes them; the host does, for
  instance when it installs the method that another decorator of the same property returns.
\<close>

record registry =
  pendingFields :: "nat \<Rightarrow> UnmountedFieldMap"
  pendingInputFields :: "nat \<Rightarrow> UnmountedInputFieldMap"
  graphQLTypes :: "nat \<rightharpoonup> gql_type"
  descriptions :: "meta_target \<Rightarrow> string option"
  deprecationReasons :: "meta_target \<Rightarrow> string option"
  prototypes :: "nat \<Rightarrow> js_value js_object"

definition emptyRegistry :: registry where
  "emptyRegistry = \<lparr> pendingFields = (\<lambda>c. []), pendingInputFields = (\<lambda>c. []), graphQLTypes = Map.empty,
     descriptions = (\<lambda>t. None), deprecationReasons = (\<lambda>t. None), prototypes = (\<lambda>c. []) \<rparr>"

text \<open>Modelled from the spec: \<^verbatim>\<open>getFields\<close> and \<^verbatim>\<open>getInputFields\<close> give the pending map of a class.\<close>

definition getFields :: "registry \<Rightarrow> nat \<Rightarrow> UnmountedFieldMap" where
  "getFields reg c = pendingFields reg c"

definition getInputFields :: "registry \<Rightarrow> nat \<Rightarrow> UnmountedInputFieldMap" where
  "getInputFields reg c = pendingInputFields reg c"

text \<open>Modelled from the spec: \<^verbatim>\<open>setGraphQLType\<close> registers the external type of a class.\<close>

definition setGraphQLType :: "nat \<Rightarrow> gql_type \<Rightarrow> registry \<Rightarrow> registry" where
  "setGraphQLType c t reg = reg\<lparr> graphQLTypes := (graphQLTypes reg)(c \<mapsto> t) \<rparr>"

text \<open>Modelled from the spec: \<^verbatim>\<open>getDescription\<close> and \<^verbatim>\<open>getDeprecationReason\<close> read the metadata.\<close>

definition getDescription :: "registry \<Rightarrow> meta_target \<Rightarrow> string option" where
  "getDescription reg t = descriptions reg t"

definition getDeprecationReason :: "registry \<Rightarrow> meta_target \<Rightarrow> string option" where
  "getDeprecationReason reg t = deprecationReasons reg t"

text \<open>
  What the source uses and neither defines nor has described: these are parameters.
  \<^item> \<^verbatim>\<open>getGraphQLType\<close> of the reflection module: the external type of a reference, or the
    message of the error it throws;
  \<^item> \<^verbatim>\<open>assertFields\<close> and \<^verbatim>\<open>assertInputFields\<close> of the reflection module: the message of
    the error they throw, if any;
  \<^item> \<^verbatim>\<open>isOutputType\<close>, \<^verbatim>\<open>isInputType\<close> and \<^verbatim>\<open>defaultFieldResolver\<close> of the wrapped library;
  \<^item> the host language's call \<^verbatim>\<open>f.call(thisArg, ...arguments)\<close> of a function value.
\<close>

record externals =
  getGraphQLType :: "registry \<Rightarrow> type_ref \<Rightarrow> string + gql_type"
  assertFields :: "js_class \<Rightarrow> UnmountedFieldMap \<Rightarrow> string option"
  assertInputFields :: "js_class \<Rightarrow> UnmountedInputFieldMap \<Rightarrow> string option"
  isOutputType :: "gql_type \<Rightarrow> bool"
  isInputType :: "gql_type \<Rightarrow> bool"
  defaultFieldResolver :: "js_value \<Rightarrow> js_value \<Rightarrow> js_value \<Rightarrow> js_value \<Rightarrow> js_value"
  call :: "nat \<Rightarrow> js_value \<Rightarrow> js_value list \<Rightarrow> js_value"

section \<open>Property decorators\<close>

text \<open>
  Results carry the registry as the call leaves it, also when the call throws:
  \<open>(Inl e, reg)\<close> is a throw of \<open>e\<close> in state \<open>reg\<close>.
\<close>

type_synonym 'a result = "(error + 'a) \<times> registry"

text \<open>
  \<^verbatim>\<open>Field(type, config)(target, key)\<close>, lines 97-106 and 161-162: \<^verbatim>\<open>key in fields\<close> is
  membership among the keys of the pending map, and \<^verbatim>\<open>fields[key] = ...\<close> writes into the
  map the registry holds for the class.
\<close>

definition Field_decorator :: "type_ref \<Rightarrow> FieldConfig \<Rightarrow> js_class \<Rightarrow> string \<Rightarrow> registry \<Rightarrow> unit result" where
  "Field_decorator type config target key reg =
     (let class = cid target;
          fs = getFields reg class
      in if key \<in> set (map fst fs) then (Inl (FieldAlreadyDefined key class), reg)
         else (Inr (),
               reg\<lparr> pendingFields := (pendingFields reg)
                      (class := AList.update key (FieldThunk type config target key) fs) \<rparr>))"

text \<open>\<^verbatim>\<open>InputField(type, config)(target, key)\<close>, lines 170-179 and 192-193.\<close>

definition InputField :: "type_ref \<Rightarrow> InputFieldConfig \<Rightarrow> js_class \<Rightarrow> string \<Rightarrow> registry \<Rightarrow> unit result" where
  "InputField type config target key reg =
     (let class = cid target;
          fs = getInputFields reg class
      in if key \<in> set (map fst fs) then (Inl (FieldAlreadyDefined key class), reg)
         else (Inr (),
               reg\<lparr> pendingInputFields := (pendingInputFields reg)
                      (class := AList.update key (InputFieldThunk type config target key) fs) \<rparr>))"

section \<open>Invoking a thunk\<close>

text \<open>
  \<^verbatim>\<open>isInputType(arg)\<close> on an arbitrary value: only a type object of the library can be one.
\<close>

fun isInputType_any :: "externals \<Rightarrow> type_ref \<Rightarrow> bool" where
  "isInputType_any ext (GraphQL t) = isInputType ext t"
| "isInputType_any ext r = False"

text \<open>
  \<^verbatim>\<open>typeof arg.type !== 'undefined'\<close>, line 119: reading a property of \<^verbatim>\<open>undefined\<close> throws;
  a record has the property when its \<^verbatim>\<open>type\<close> is not \<^verbatim>\<open>undefined\<close>; library type objects,
  arrays and class references are taken to have no property of that name.
\<close>

fun has_type_property :: "type_ref \<Rightarrow> error + bool" where
  "has_type_property Undefined = Inl TypeError"
| "has_type_property (ArgumentType t d v) = Inr (t \<noteq> Undefined)"
| "has_type_property r = Inr False"

text \<open>\<^verbatim>\<open>arg.type\<close> and \<^verbatim>\<open>arg.description\<close> of a record, lines 123 and 125.\<close>

fun type_property :: "type_ref \<Rightarrow> type_ref" where
  "type_property (ArgumentType t d v) = t"
| "type_property r = Undefined"

fun description_property :: "type_ref \<Rightarrow> string option" where
  "description_property (ArgumentType t d v) = d"
| "description_property r = None"

text \<open>
  Lines 118-129: \<^verbatim>\<open>extra\<close> and \<^verbatim>\<open>argType\<close> of one argument. \<^verbatim>\<open>extra\<close> is
  \<^verbatim>\<open>{description: arg.description}\<close> for a record and \<^verbatim>\<open>{}\<close> otherwise, so it is
  represented by the description it may carry.
\<close>

definition Field_arg_shape :: "externals \<Rightarrow> type_ref \<Rightarrow> error + (string option \<times> type_ref)" where
  "Field_arg_shape ext arg =
     (case has_type_property arg of
        Inl e \<Rightarrow> Inl e
      | Inr has_type \<Rightarrow>
          if has_type \<and> \<not> isInputType_any ext arg
          then Inr (description_property arg, type_property arg)
          else Inr (None, arg))"

text \<open>
  Lines 115-140, the body of the loop for one entry: the argument config is
  \<^verbatim>\<open>{type: newType, ...extra}\<close>, and its \<^verbatim>\<open>defaultValue\<close> is never set.
\<close>

definition Field_arg :: "externals \<Rightarrow> registry \<Rightarrow> string \<Rightarrow> type_ref \<Rightarrow> error + gql_type argument_config" where
  "Field_arg ext reg argKey arg =
     (case Field_arg_shape ext arg of
        Inl e \<Rightarrow> Inl e
      | Inr (extra, argType) \<Rightarrow>
          (case getGraphQLType ext reg argType of
             Inl msg \<Rightarrow> Inl (ReflectionError msg)
           | Inr newType \<Rightarrow>
               if \<not> isInputType ext newType then Inl (FieldArgumentNotInput argKey argType)
               else Inr (GraphQLArgumentConfig newType extra JSUndefined)))"

text \<open>
  The loop of lines 114-141 over the entries of \<^verbatim>\<open>args\<close> in enumeration order, with the
  argument map built so far.
\<close>

fun Field_args :: "externals \<Rightarrow> registry \<Rightarrow> type_ref js_object \<Rightarrow> gql_type argument_config js_object
    \<Rightarrow> error + gql_type argument_config js_object" where
  "Field_args ext reg [] fieldArgs = Inr fieldArgs"
| "Field_args ext reg ((argKey, arg) # rest) fieldArgs =
     (case Field_arg ext reg argKey arg of
        Inl e \<Rightarrow> Inl e
      | Inr argConfig \<Rightarrow> Field_args ext reg rest (AList.update argKey argConfig fieldArgs))"

text \<open>
  The thunk stored by \<^verbatim>\<open>Field\<close>, lines 106-161, invoked in state \<open>reg\<close>: line 142 reads
  \<^verbatim>\<open>target[key]\<close> from the prototype as it is in that state.
\<close>

fun Field_thunk :: "externals \<Rightarrow> registry \<Rightarrow> field_thunk \<Rightarrow> error + gql_type field_config" where
  "Field_thunk ext reg (FieldThunk type config target key) =
     (case getGraphQLType ext reg type of
        Inl msg \<Rightarrow> Inl (ReflectionError msg)
      | Inr type' \<Rightarrow>
          if \<not> isOutputType ext type' then Inl TypeIsNotOutput
          else
            (case Field_args ext reg (case fc_args config of None \<Rightarrow> [] | Some args \<Rightarrow> args) [] of
               Inl e \<Rightarrow> Inl e
             | Inr fieldArgs \<Rightarrow>
                 (let targetResolver = get_property (prototypes reg (cid target)) key;
                      resolver = (case targetResolver of
                                    JSFunction f \<Rightarrow> TargetResolver f
                                  | _ \<Rightarrow> DefaultFieldResolver)
                  in Inr (GraphQLFieldConfig fieldArgs type'
                            (getDescription reg (OfProperty (cid target) key))
                            (getDeprecationReason reg (OfProperty (cid target) key))
                            resolver))))"

text \<open>
  The thunk stored by \<^verbatim>\<open>InputField\<close>, lines 179-192, invoked in state \<open>reg\<close>: line 184
  reads \<^verbatim>\<open>target[key]\<close> from the prototype as it is in that state.
\<close>

fun InputField_thunk :: "externals \<Rightarrow> registry \<Rightarrow> input_field_thunk \<Rightarrow> error + gql_type input_field_config" where
  "InputField_thunk ext reg (InputFieldThunk type config target key) =
     (case getGraphQLType ext reg type of
        Inl msg \<Rightarrow> Inl (ReflectionError msg)
      | Inr type' \<Rightarrow>
          if \<not> isInputType ext type' then Inl TypeIsNotInput
          else
            (let defaultValue = get_property (prototypes reg (cid target)) key
             in Inr (GraphQLInputFieldConfig type'
                       (or_string (ifc_description config)
                          (getDescription reg (OfProperty (cid target) key)))
                       (or_string (ifc_deprecationReason config)
                          (getDeprecationReason reg (OfProperty (cid target) key)))
                       (or_value (ifc_defaultValue config) defaultValue))))"

text \<open>
  A resolver applied by the library to \<^verbatim>\<open>(root, args, context, info)\<close>: the closure of
  lines 145-152 is \<^verbatim>\<open>targetResolver.call(root, args, context, info)\<close>.
\<close>

fun apply_resolver :: "externals \<Rightarrow> resolver \<Rightarrow> js_value \<Rightarrow> js_value \<Rightarrow> js_value \<Rightarrow> js_value \<Rightarrow> js_value" where
  "apply_resolver ext DefaultFieldResolver root args context info =
     defaultFieldResolver ext root args context info"
| "apply_resolver ext (TargetResolver f) root args context info =
     call ext f root [args, context, info]"

text \<open>
  Modelled from the spec: \<^verbatim>\<open>mountFields\<close> and \<^verbatim>\<open>mountInputFields\<close> of the reflection module
  are not part of the source. By the spec, on decoration of a class all pending thunks are
  invoked in declaration order to materialize the field configs, which are collected under
  the same names; a thunk that throws ends the mounting.
\<close>

fun mountFields :: "externals \<Rightarrow> registry \<Rightarrow> UnmountedFieldMap \<Rightarrow> error + gql_type field_config js_object" where
  "mountFields ext reg [] = Inr []"
| "mountFields ext reg ((key, thunk) # rest) =
     (case Field_thunk ext reg thunk of
        Inl e \<Rightarrow> Inl e
      | Inr field \<Rightarrow>
          (case mountFields ext reg rest of
             Inl e \<Rightarrow> Inl e
           | Inr mounted \<Rightarrow> Inr ((key, field) # mounted)))"

fun mountInputFields :: "externals \<Rightarrow> registry \<Rightarrow> UnmountedInputFieldMap
    \<Rightarrow> error + gql_type input_field_config js_object" where
  "mountInputFields ext reg [] = Inr []"
| "mountInputFields ext reg ((key, thunk) # rest) =
     (case InputField_thunk ext reg thunk of
        Inl e \<Rightarrow> Inl e
      | Inr field \<Rightarrow>
          (case mountInputFields ext reg rest of
             Inl e \<Rightarrow> Inl e
           | Inr mounted \<Rightarrow> Inr ((key, field) # mounted)))"

section \<open>Class decorators\<close>

text \<open>
  Lines 207-215: the external type of each listed interface, in list order; the first
  entry whose type is not an interface type throws.
\<close>

fun ObjectType_interfaces :: "externals \<Rightarrow> registry \<Rightarrow> nat list \<Rightarrow> error + gql_type list" where
  "ObjectType_interfaces ext reg [] = Inr []"
| "ObjectType_interfaces ext reg (iface # rest) =
     (case getGraphQLType ext reg (ClassRef iface) of
        Inl msg \<Rightarrow> Inl (ReflectionError msg)
      | Inr ifaceType \<Rightarrow>
          if \<not> instanceof_GraphQLInterfaceType ifaceType then Inl ProvidedInterfaceNotValid
          else (case ObjectType_interfaces ext reg rest of
                  Inl e \<Rightarrow> Inl e
                | Inr ifaceTypes \<Rightarrow> Inr (ifaceType # ifaceTypes)))"

text \<open>Lines 217-226: the pending fields of the listed interfaces, spread one after the other.\<close>

definition allInterfaceFields :: "registry \<Rightarrow> nat list \<Rightarrow> UnmountedFieldMap" where
  "allInterfaceFields reg ifaces = fold (\<lambda>iface acc. spread acc (getFields reg iface)) ifaces []"

text \<open>Lines 228-233: the inherited fields first, then the fields of the class itself.\<close>

definition ObjectType_fields :: "registry \<Rightarrow> nat list \<Rightarrow> js_class \<Rightarrow> UnmountedFieldMap" where
  "ObjectType_fields reg ifaces target =
     spread (allInterfaceFields reg ifaces) (getFields reg (cid target))"

text \<open>
  \<^verbatim>\<open>ObjectType(opts)(target)\<close>, lines 201-248. The constructors of the library are taken
  to accept every configuration.
\<close>

definition ObjectType :: "externals \<Rightarrow> ObjectTypeConfig \<Rightarrow> js_class \<Rightarrow> registry \<Rightarrow> js_class result" where
  "ObjectType ext opts target reg =
     (let ifaces = (case otc_interfaces opts of None \<Rightarrow> [] | Some is \<Rightarrow> is)
      in case ObjectType_interfaces ext reg ifaces of
           Inl e \<Rightarrow> (Inl e, reg)
         | Inr interfaces \<Rightarrow>
             (let fields = ObjectType_fields reg ifaces target
              in case assertFields ext target fields of
                   Some msg \<Rightarrow> (Inl (ReflectionError msg), reg)
                 | None \<Rightarrow>
                     (case mountFields ext reg fields of
                        Inl e \<Rightarrow> (Inl e, reg)
                      | Inr mounted \<Rightarrow>
                          (Inr target,
                           setGraphQLType (cid target)
                             (GraphQLObjectType
                                (or_name (otc_name opts) (className target))
                                (or_string (otc_description opts) (getDescription reg (OfClass (cid target))))
                                interfaces
                                mounted)
                             reg))))"

text \<open>\<^verbatim>\<open>InterfaceType(opts)(target)\<close>, lines 256-286.\<close>

definition InterfaceType :: "externals \<Rightarrow> InterfaceTypeConfig \<Rightarrow> js_class \<Rightarrow> registry \<Rightarrow> js_class result" where
  "InterfaceType ext opts target reg =
     (let fields = getFields reg (cid target)
      in case assertFields ext target fields of
           Some msg \<Rightarrow> (Inl (ReflectionError msg), reg)
         | None \<Rightarrow>
             (case mountFields ext reg fields of
                Inl e \<Rightarrow> (Inl e, reg)
              | Inr mounted \<Rightarrow>
                  (Inr target,
                   setGraphQLType (cid target)
                     (GraphQLInterfaceType
                        (or_name (itc_name opts) (className target))
                        (or_string (itc_description opts) (getDescription reg (OfClass (cid target))))
                        (ResolveType (itc_resolveType opts))
                        mounted)
                     reg)))"

text \<open>\<^verbatim>\<open>InputObjectType(opts)(target)\<close>, lines 293-311.\<close>

definition InputObjectType :: "externals \<Rightarrow> InputObjectTypeConfig \<Rightarrow> js_class \<Rightarrow> registry \<Rightarrow> js_class result" where
  "InputObjectType ext opts target reg =
     (let fields = getInputFields reg (cid target)
      in case assertInputFields ext target fields of
           Some msg \<Rightarrow> (Inl (ReflectionError msg), reg)
         | None \<Rightarrow>
             (case mountInputFields ext reg fields of
                Inl e \<Rightarrow> (Inl e, reg)
              | Inr mounted \<Rightarrow>
                  (Inr target,
                   setGraphQLType (cid target)
                     (GraphQLInputObjectType
                        (or_name (iotc_name opts) (className target))
                        (or_string (iotc_description opts) (getDescription reg (OfClass (cid target))))
                        mounted)
                     reg)))"

text \<open>
  Lines 313-323. \<^verbatim>\<open>BaseClassProperties\<close> is computed by the host from an empty class;
  the source's comment names its members.
\<close>

definition BaseClassProperties :: "string list" where
  "BaseClassProperties = [''length'', ''name'', ''prototype'']"

definition getStaticProperties :: "js_class \<Rightarrow> string list" where
  "getStaticProperties class =
     filter (\<lambda>name. name \<notin> set BaseClassProperties) (map fst (ownProperties class))"

text \<open>Lines 335-342: the loop that fills \<^verbatim>\<open>values\<close>.\<close>

definition EnumType_values :: "registry \<Rightarrow> js_class \<Rightarrow> enum_value_config js_object" where
  "EnumType_values reg target =
     fold (\<lambda>name values.
             AList.update name
               (GraphQLEnumValueConfig
                  (get_property (ownProperties target) name)
                  (getDescription reg (OfStatic (cid target) name))
                  (getDeprecationReason reg (OfStatic (cid target) name)))
               values)
          (getStaticProperties target) []"

text \<open>\<^verbatim>\<open>EnumType(opts)(target)\<close>, lines 330-352.\<close>

definition EnumType :: "EnumTypeConfig \<Rightarrow> js_class \<Rightarrow> registry \<Rightarrow> js_class result" where
  "EnumType opts target reg =
     (Inr target,
      setGraphQLType (cid target)
        (GraphQLEnumType
           (or_name (etc_name opts) (className target))
           (or_string (etc_description opts) (getDescription reg (OfClass (cid target))))
           (EnumType_values reg target))
        reg)"

section \<open>The schema object\<close>

text \<open>
  Modelled from the spec: the schema module \<^verbatim>\<open>./schema\<close> (re-exported at line 51) is not
  part of the source. The spec describes a root object that aggregates the Query and
  Mutation class references into a schema object whose \<^verbatim>\<open>toString()\<close> and
  \<^verbatim>\<open>execute(queryString)\<close> simply delegate to the wrapped library's printer and executor.
  The library's schema type \<open>'s\<close>, its result type \<open>'r\<close>, its printer and its executor
  are parameters.
\<close>

record SchemaConfig =
  sc_query :: "nat option"
  sc_mutation :: "nat option"

record ('s, 'r) schema_library =
  printSchema :: "'s \<Rightarrow> string"
  graphql :: "'s \<Rightarrow> string \<Rightarrow> 'r"

datatype 's Schema = Schema (schema_config: SchemaConfig) (schema_assembled: 's)

definition toString :: "('s, 'r) schema_library \<Rightarrow> 's Schema \<Rightarrow> string" where
  "toString lib s = printSchema lib (schema_assembled s)"

definition execute :: "('s, 'r) schema_library \<Rightarrow> 's Schema \<Rightarrow> string \<Rightarrow> 'r" where
  "execute lib s queryString = graphql lib (schema_assembled s) queryString"

section \<open>A sample instantiation\<close>

text \<open>
  One choice of the parameters, used to run the decorators on the classes of the
  repository's Star Wars example: references resolve through the registry (\<^verbatim>\<open>String\<close> is
  class 0), a one-element array is a list type, scalars and enums are both input and
  output types, objects and interfaces output types only, input objects input types only.
\<close>

fun sample_getGraphQLType :: "registry \<Rightarrow> type_ref \<Rightarrow> string + gql_type" where
  "sample_getGraphQLType reg Undefined = Inl ''The target undefined have no GraphQL type associated to it.''"
| "sample_getGraphQLType reg (GraphQL t) = Inr t"
| "sample_getGraphQLType reg (ClassRef c) =
     (if c = 0 then Inr (GraphQLScalarType ''String'')
      else case graphQLTypes reg c of
             None \<Rightarrow> Inl ''The target class have no GraphQL type associated to it.''
           | Some t \<Rightarrow> Inr t)"
| "sample_getGraphQLType reg (ArrayRef [r]) =
     (case sample_getGraphQLType reg r of Inl msg \<Rightarrow> Inl msg | Inr t \<Rightarrow> Inr (GraphQLList t))"
| "sample_getGraphQLType reg (ArrayRef rs) = Inl ''Graphene Array definitions should contain exactly one element.''"
| "sample_getGraphQLType reg (ArgumentType t d v) = Inl ''The target object have no GraphQL type associated to it.''"

fun sample_isOutputType :: "gql_type \<Rightarrow> bool" where
  "sample_isOutputType (GraphQLList t) = sample_isOutputType t"
| "sample_isOutputType (GraphQLNonNull t) = sample_isOutputType t"
| "sample_isOutputType (GraphQLInputObjectType n d fs) = False"
| "sample_isOutputType t = True"

fun sample_isInputType :: "gql_type \<Rightarrow> bool" where
  "sample_isInputType (GraphQLList t) = sample_isInputType t"
| "sample_isInputType (GraphQLNonNull t) = sample_isInputType t"
| "sample_isInputType (GraphQLObjectType n d is fs) = False"
| "sample_isInputType (GraphQLInterfaceType n d r fs) = False"
| "sample_isInputType t = True"

definition sample_externals :: externals where
  "sample_externals =
     \<lparr> getGraphQLType = sample_getGraphQLType,
       assertFields = (\<lambda>target fs. if fs = [] then Some ''Type must have fields defined on it.'' else None),
       assertInputFields = (\<lambda>target fs. if fs = [] then Some ''Type must have fields defined on it.'' else None),
       isOutputType = sample_isOutputType,
       isInputType = sample_isInputType,
       defaultFieldResolver = (\<lambda>root args context info. JSUndefined),
       call = (\<lambda>f this arguments. this) \<rparr>"

definition ID :: type_ref where
  "ID = GraphQL (GraphQLScalarType ''ID'')"

definition String :: type_ref where
  "String = ClassRef 0"

definition no_config :: FieldConfig where
  "no_config = \<lparr> fc_args = None, fc_description = None, fc_deprecationReason = None \<rparr>"

definition Episode :: js_class where
  "Episode = \<lparr> cid = 1, className = ''Episode'',
     ownProperties = [(''length'', JSNumber 0), (''name'', JSString ''Episode''), (''prototype'', JSObject 1),
                      (''NEWHOPE'', JSNumber 4), (''EMPIRE'', JSNumber 5), (''JEDI'', JSNumber 6)] \<rparr>"

definition Character :: js_class where
  "Character = \<lparr> cid = 2, className = ''Character'',
     ownProperties = [(''length'', JSNumber 0), (''name'', JSString ''Character''), (''prototype'', JSObject 2)] \<rparr>"

definition Human :: js_class where
  "Human = \<lparr> cid = 3, className = ''Human'',
     ownProperties = [(''length'', JSNumber 0), (''name'', JSString ''Human''), (''prototype'', JSObject 3)] \<rparr>"

text \<open>
  A registry in the shape of the example after the property decorators of \<^verbatim>\<open>Character\<close>
  and \<^verbatim>\<open>Human\<close> have run, with \<^verbatim>\<open>Human\<close> declaring \<^verbatim>\<open>name\<close> again; the prototype of
  \<^verbatim>\<open>Character\<close> has the method \<^verbatim>\<open>friends\<close>.
\<close>

definition starWarsFields :: registry where
  "starWarsFields =
     emptyRegistry\<lparr> pendingFields := (\<lambda>c. [])
       (2 := [(''id'', FieldThunk ID no_config Character ''id''),
              (''name'', FieldThunk String no_config Character ''name''),
              (''friends'', FieldThunk String no_config Character ''friends'')],
        3 := [(''homePlanet'', FieldThunk String no_config Human ''homePlanet''),
              (''name'', FieldThunk ID no_config Human ''name'')]),
       prototypes := (\<lambda>c. []) (2 := [(''friends'', JSFunction 7)]) \<rparr>"

definition ReviewInput :: js_class where
  "ReviewInput = \<lparr> cid = 4, className = ''ReviewInput'',
     ownProperties = [(''length'', JSNumber 0), (''name'', JSString ''ReviewInput''), (''prototype'', JSObject 4)] \<rparr>"

definition no_input_config :: InputFieldConfig where
  "no_input_config = \<lparr> ifc_defaultValue = JSUndefined, ifc_description = None, ifc_deprecationReason = None \<rparr>"

definition reviewFields :: registry where
  "reviewFields =
     emptyRegistry\<lparr> pendingInputFields := (\<lambda>c. [])
       (4 := [(''stars'', InputFieldThunk ID no_input_config ReviewInput ''stars'')]),
       prototypes := (\<lambda>c. []) (4 := [(''stars'', JSNumber 5)]) \<rparr>"

definition humanType :: gql_type where
  "humanType = GraphQLObjectType ''Human'' None [] []"

definition reviewInputType :: gql_type where
  "reviewInputType = GraphQLInputObjectType ''ReviewInput'' None []"

definition heroArgs :: FieldConfig where
  "heroArgs = \<lparr> fc_args = Some [(''episode'', ID), (''who'', GraphQL humanType)],
       fc_description = None, fc_deprecationReason = None \<rparr>"

text \<open>The argument of the comment at lines 55-59: \<^verbatim>\<open>Argument(String, "The description", "value")\<close>.\<close>

definition humanArgs :: FieldConfig where
  "humanArgs = \<lparr> fc_args = Some [(''id'', Argument String (Some ''The description'') (JSString ''value''))],
       fc_description = None, fc_deprecationReason = None \<rparr>"

text \<open>The class decorators of the example, and the types they register in the sample instantiation.\<close>

definition characterOpts :: InterfaceTypeConfig where
  "characterOpts = \<lparr> itc_name = None, itc_description = None, itc_resolveType = Some 8 \<rparr>"

definition humanOpts :: ObjectTypeConfig where
  "humanOpts = \<lparr> otc_name = None, otc_description = None, otc_interfaces = Some [2] \<rparr>"

definition characterType :: gql_type where
  "characterType = GraphQLInterfaceType ''Character'' None (ResolveType (Some 8))
     [(''id'', GraphQLFieldConfig [] (GraphQLScalarType ''ID'') None None DefaultFieldResolver),
      (''name'', GraphQLFieldConfig [] (GraphQLScalarType ''String'') None None DefaultFieldResolver),
      (''friends'', GraphQLFieldConfig [] (GraphQLScalarType ''String'') None None (TargetResolver 7))]"

definition starWarsRegistry :: registry where
  "starWarsRegistry = setGraphQLType 2 characterType starWarsFields"

definition humanObjectType :: gql_type where
  "humanObjectType = GraphQLObjectType ''Human'' None [characterType]
     [(''id'', GraphQLFieldConfig [] (GraphQLScalarType ''ID'') None None DefaultFieldResolver),
      (''name'', GraphQLFieldConfig [] (GraphQLScalarType ''ID'') None None DefaultFieldResolver),
      (''friends'', GraphQLFieldConfig [] (GraphQLScalarType ''String'') None None (TargetResolver 7)),
      (''homePlanet'', GraphQLFieldConfig [] (GraphQLScalarType ''String'') None None DefaultFieldResolver)]"

definition Droid :: js_class where
  "Droid = \<lparr> cid = 5, className = ''Droid'',
     ownProperties = [(''length'', JSNumber 0), (''name'', JSString ''Droid''), (''prototype'', JSObject 5)] \<rparr>"

definition droidOpts :: ObjectTypeConfig where
  "droidOpts = \<lparr> otc_name = None, otc_description = None, otc_interfaces = Some [2, 3] \<rparr>"

definition humanRegistry :: registry where
  "humanRegistry = setGraphQLType 3 humanObjectType starWarsRegistry"

definition reviewOpts :: InputObjectTypeConfig where
  "reviewOpts = \<lparr> iotc_name = None, iotc_description = None \<rparr>"

definition reviewInputObjectType :: gql_type where
  "reviewInputObjectType = GraphQLInputObjectType ''ReviewInput'' None
     [(''stars'', GraphQLInputFieldConfig (GraphQLScalarType ''ID'') None None (JSNumber 5))]"

definition episodeMetadata :: registry where
  "episodeMetadata = emptyRegistry\<lparr> descriptions := (\<lambda>t. None)
       (OfClass 1 := Some ''The description'',
        OfStatic 1 ''NEWHOPE'' := Some ''Released in 1977.'',
        OfStatic 1 ''EMPIRE'' := Some ''Released in 1980.'',
        OfStatic 1 ''JEDI'' := Some ''Released in 1983.'') \<rparr>"

definition episodeOpts :: EnumTypeConfig where
  "episodeOpts = \<lparr> etc_name = None, etc_description = None \<rparr>"

definition episodeType :: gql_type where
  "episodeType = GraphQLEnumType ''Episode'' (Some ''The description'')
     [(''NEWHOPE'', GraphQLEnumValueConfig (JSNumber 4) (Some ''Released in 1977.'') None),
      (''EMPIRE'', GraphQLEnumValueConfig (JSNumber 5) (Some ''Released in 1980.'') None),
      (''JEDI'', GraphQLEnumValueConfig (JSNumber 6) (Some ''Released in 1983.'') None)]"

definition unnamedOpts :: EnumTypeConfig where
  "unnamedOpts = \<lparr> etc_name = Some '''', etc_description = None \<rparr>"

text \<open>
  A method under two decorators, \<^verbatim>\<open>@Field(String) @wrap hero()\<close>: when \<^verbatim>\<open>Field\<close> runs the
  prototype of \<^verbatim>\<open>Query\<close> still has the declared method (function 21); the host then
  installs the method that \<^verbatim>\<open>wrap\<close> returned (function 12), and the thunk is invoked after
  that.
\<close>

definition Query :: js_class where
  "Query = \<lparr> cid = 6, className = ''Query'',
     ownProperties = [(''length'', JSNumber 0), (''name'', JSString ''Query''), (''prototype'', JSObject 6)] \<rparr>"

definition queryDeclared :: registry where
  "queryDeclared = emptyRegistry\<lparr> prototypes := (\<lambda>c. []) (6 := [(''hero'', JSFunction 21)]) \<rparr>"

definition queryWrapped :: registry where
  "queryWrapped =
     (snd (Field_decorator String no_config Query ''hero'' queryDeclared))
       \<lparr> prototypes := (prototypes queryDeclared)
            (6 := AList.update ''hero'' (JSFunction 12) (prototypes queryDeclared 6)) \<rparr>"

section \<open>Properties of the property decorators\<close>

lemmas sample_simps = sample_externals_def ID_def String_def humanType_def reviewInputType_def
  Field_arg_shape_def Argument_def

lemma update_fresh: "key \<notin> set (map fst al) \<Longrightarrow> AList.update key v al = al @ [(key, v)]"
  by (induction al) auto

lemma Field_decorator_duplicate:
  "key \<in> set (map fst (getFields reg (cid target))) \<Longrightarrow>
   Field_decorator type config target key reg = (Inl (FieldAlreadyDefined key (cid target)), reg)"
  by (simp add: Field_decorator_def Let_def)

lemma Field_decorator_fresh:
  "key \<notin> set (map fst (getFields reg (cid target))) \<Longrightarrow>
   Field_decorator type config target key reg =
     (Inr (), reg\<lparr> pendingFields := (pendingFields reg)
        (cid target := getFields reg (cid target) @ [(key, FieldThunk type config target key)]) \<rparr>)"
  by (simp add: Field_decorator_def Let_def update_fresh)

lemma InputField_duplicate:
  "key \<in> set (map fst (getInputFields reg (cid target))) \<Longrightarrow>
   InputField type config target key reg = (Inl (FieldAlreadyDefined key (cid target)), reg)"
  by (simp add: InputField_def Let_def)

lemma InputField_fresh:
  "key \<notin> set (map fst (getInputFields reg (cid target))) \<Longrightarrow>
   InputField type config target key reg =
     (Inr (), reg\<lparr> pendingInputFields := (pendingInputFields reg)
        (cid target := getInputFields reg (cid target) @ [(key, InputFieldThunk type config target key)]) \<rparr>)"
  by (simp add: InputField_def Let_def update_fresh)

text \<open>
  Claim C2. For every class and every property name, \<^verbatim>\<open>Field\<close> (respectively
  \<^verbatim>\<open>InputField\<close>) applied to a name that is already a key of the class's pending field
  map (respectively pending input field map) throws the error that carries the name and
  the class, and leaves the registry as it was. Applied to a fresh name it does not throw,
  and the only change is that the class's pending map has one more entry, at its end:
  the thunk, under that name.
\<close>

theorem C2_duplicate_field_throws:
  "(key \<in> set (map fst (getFields reg (cid target))) \<longrightarrow>
      Field_decorator type config target key reg = (Inl (FieldAlreadyDefined key (cid target)), reg))
   \<and> (key \<notin> set (map fst (getFields reg (cid target))) \<longrightarrow>
      (\<exists>reg'. Field_decorator type config target key reg = (Inr (), reg')
         \<and> getFields reg' (cid target) = getFields reg (cid target) @ [(key, FieldThunk type config target key)]
         \<and> (\<forall>c. c \<noteq> cid target \<longrightarrow> getFields reg' c = getFields reg c)
         \<and> getInputFields reg' = getInputFields reg
         \<and> graphQLTypes reg' = graphQLTypes reg))
   \<and> (key \<in> set (map fst (getInputFields reg (cid target))) \<longrightarrow>
      InputField itype iconfig target key reg = (Inl (FieldAlreadyDefined key (cid target)), reg))
   \<and> (key \<notin> set (map fst (getInputFields reg (cid target))) \<longrightarrow>
      (\<exists>reg'. InputField itype iconfig target key reg = (Inr (), reg')
         \<and> getInputFields reg' (cid target) =
             getInputFields reg (cid target) @ [(key, InputFieldThunk itype iconfig target key)]
         \<and> (\<forall>c. c \<noteq> cid target \<longrightarrow> getInputFields reg' c = getInputFields reg c)
         \<and> getFields reg' = getFields reg
         \<and> graphQLTypes reg' = graphQLTypes reg))"
proof (intro conjI impI)
  assume "key \<in> set (map fst (getFields reg (cid target)))"
  then show "Field_decorator type config target key reg = (Inl (FieldAlreadyDefined key (cid target)), reg)"
    by (rule Field_decorator_duplicate)
next
  assume fresh: "key \<notin> set (map fst (getFields reg (cid target)))"
  show "\<exists>reg'. Field_decorator type config target key reg = (Inr (), reg')
         \<and> getFields reg' (cid target) = getFields reg (cid target) @ [(key, FieldThunk type config target key)]
         \<and> (\<forall>c. c \<noteq> cid target \<longrightarrow> getFields reg' c = getFields reg c)
         \<and> getInputFields reg' = getInputFields reg
         \<and> graphQLTypes reg' = graphQLTypes reg"
    unfolding Field_decorator_fresh [OF fresh]
    by (simp add: getFields_def getInputFields_def fun_eq_iff)
next
  assume "key \<in> set (map fst (getInputFields reg (cid target)))"
  then show "InputField itype iconfig target key reg = (Inl (FieldAlreadyDefined key (cid target)), reg)"
    by (rule InputField_duplicate)
next
  assume fresh: "key \<notin> set (map fst (getInputFields reg (cid target)))"
  show "\<exists>reg'. InputField itype iconfig target key reg = (Inr (), reg')
         \<and> getInputFields reg' (cid target) =
             getInputFields reg (cid target) @ [(key, InputFieldThunk itype iconfig target key)]
         \<and> (\<forall>c. c \<noteq> cid target \<longrightarrow> getInputFields reg' c = getInputFields reg c)
         \<and> getFields reg' = getFields reg
         \<and> graphQLTypes reg' = graphQLTypes reg"
    unfolding InputField_fresh [OF fresh]
    by (simp add: getFields_def getInputFields_def fun_eq_iff)
qed

theorem C2_duplicate_field_throws_witness:
  "Field_decorator String no_config Character ''id'' starWarsFields
     = (Inl (FieldAlreadyDefined ''id'' (cid Character)), starWarsFields)
   \<and> fst (Field_decorator String no_config Character ''appearsIn'' starWarsFields) = Inr ()
   \<and> InputField String no_input_config ReviewInput ''stars'' reviewFields
     = (Inl (FieldAlreadyDefined ''stars'' (cid ReviewInput)), reviewFields)
   \<and> fst (InputField String no_input_config ReviewInput ''commentary'' reviewFields) = Inr ()"
proof -
  have dup: "''id'' \<in> set (map fst (getFields starWarsFields (cid Character)))"
    by (simp add: getFields_def starWarsFields_def Character_def)
  have fresh: "''appearsIn'' \<notin> set (map fst (getFields starWarsFields (cid Character)))"
    by (simp add: getFields_def starWarsFields_def Character_def)
  have idup: "''stars'' \<in> set (map fst (getInputFields reviewFields (cid ReviewInput)))"
    by (simp add: getInputFields_def reviewFields_def ReviewInput_def)
  have ifresh: "''commentary'' \<notin> set (map fst (getInputFields reviewFields (cid ReviewInput)))"
    by (simp add: getInputFields_def reviewFields_def ReviewInput_def)
  note c2 = C2_duplicate_field_throws [where type = String and config = no_config
      and itype = String and iconfig = no_input_config]
  have a: "Field_decorator String no_config Character ''id'' starWarsFields
     = (Inl (FieldAlreadyDefined ''id'' (cid Character)), starWarsFields)"
    using c2 [of "''id''" starWarsFields Character] dup by blast
  have b: "fst (Field_decorator String no_config Character ''appearsIn'' starWarsFields) = Inr ()"
    using c2 [of "''appearsIn''" starWarsFields Character] fresh by fastforce
  have c: "InputField String no_input_config ReviewInput ''stars'' reviewFields
     = (Inl (FieldAlreadyDefined ''stars'' (cid ReviewInput)), reviewFields)"
    using c2 [of "''stars''" reviewFields ReviewInput] idup by blast
  have d: "fst (InputField String no_input_config ReviewInput ''commentary'' reviewFields) = Inr ()"
    using c2 [of "''commentary''" reviewFields ReviewInput] ifresh by fastforce
  from a b c d show ?thesis by blast
qed

section \<open>Properties of the thunks\<close>

lemma Field_args_append:
  "Field_args ext reg (pre @ rest) acc =
     (case Field_args ext reg pre acc of Inl e \<Rightarrow> Inl e | Inr acc' \<Rightarrow> Field_args ext reg rest acc')"
  by (induction pre arbitrary: acc) (auto split: sum.splits)

lemma Field_arg_accepted:
  "Field_arg_shape ext a = Inr (x, aT) \<Longrightarrow> getGraphQLType ext reg aT = Inr N \<Longrightarrow> isInputType ext N
   \<Longrightarrow> Field_arg ext reg k a = Inr (GraphQLArgumentConfig N x JSUndefined)"
  by (simp add: Field_arg_def)

lemma Field_arg_rejected:
  "Field_arg_shape ext a = Inr (x, aT) \<Longrightarrow> getGraphQLType ext reg aT = Inr N \<Longrightarrow> \<not> isInputType ext N
   \<Longrightarrow> Field_arg ext reg k a = Inl (FieldArgumentNotInput k aT)"
  by (simp add: Field_arg_def)

lemma Field_args_accepted:
  "\<forall>(k, a) \<in> set args. \<exists>x aT N. Field_arg_shape ext a = Inr (x, aT)
        \<and> getGraphQLType ext reg aT = Inr N \<and> isInputType ext N
   \<Longrightarrow> \<exists>fieldArgs. Field_args ext reg args acc = Inr fieldArgs"
proof (induction args arbitrary: acc)
  case Nil
  then show ?case by simp
next
  case (Cons p args)
  obtain k a where p: "p = (k, a)" by (cases p)
  from Cons.prems p obtain x aT N where
    "Field_arg_shape ext a = Inr (x, aT)" "getGraphQLType ext reg aT = Inr N" "isInputType ext N"
    by auto
  then have "Field_arg ext reg k a = Inr (GraphQLArgumentConfig N x JSUndefined)"
    by (rule Field_arg_accepted)
  moreover from Cons.prems have "\<forall>(k, a) \<in> set args. \<exists>x aT N. Field_arg_shape ext a = Inr (x, aT)
        \<and> getGraphQLType ext reg aT = Inr N \<and> isInputType ext N"
    by simp
  ultimately show ?case using Cons.IH p by simp
qed

lemma Field_args_first_rejected:
  assumes pre: "\<forall>(k, a) \<in> set pre. \<exists>x aT N. Field_arg_shape ext a = Inr (x, aT)
        \<and> getGraphQLType ext reg aT = Inr N \<and> isInputType ext N"
    and bad: "Field_arg ext reg argKey arg = Inl e"
  shows "Field_args ext reg (pre @ (argKey, arg) # post) acc = Inl e"
proof -
  from Field_args_accepted [OF pre] obtain acc' where "Field_args ext reg pre acc = Inr acc'"
    by blast
  with bad show ?thesis by (simp add: Field_args_append)
qed

lemma Field_thunk_not_output:
  "getGraphQLType ext reg type = Inr T \<Longrightarrow> \<not> isOutputType ext T
   \<Longrightarrow> Field_thunk ext reg (FieldThunk type config target key) = Inl TypeIsNotOutput"
  by simp

lemma InputField_thunk_not_input:
  "getGraphQLType ext reg type = Inr T \<Longrightarrow> \<not> isInputType ext T
   \<Longrightarrow> InputField_thunk ext reg (InputFieldThunk type config target key) = Inl TypeIsNotInput"
  by simp

lemma InputField_thunk_input:
  "getGraphQLType ext reg type = Inr T \<Longrightarrow> isInputType ext T
   \<Longrightarrow> \<exists>field. InputField_thunk ext reg (InputFieldThunk type config target key) = Inr field"
  by (simp add: Let_def)

lemma Field_thunk_argument_rejected:
  assumes "getGraphQLType ext reg type = Inr T" "isOutputType ext T"
    and "fc_args config = Some (pre @ (argKey, arg) # post)"
    and "\<forall>(k, a) \<in> set pre. \<exists>x aT N. Field_arg_shape ext a = Inr (x, aT)
        \<and> getGraphQLType ext reg aT = Inr N \<and> isInputType ext N"
    and "Field_arg_shape ext arg = Inr (extra, argType)"
    and "getGraphQLType ext reg argType = Inr newType" "\<not> isInputType ext newType"
  shows "Field_thunk ext reg (FieldThunk type config target key) = Inl (FieldArgumentNotInput argKey argType)"
proof -
  have "Field_arg ext reg argKey arg = Inl (FieldArgumentNotInput argKey argType)"
    using assms(5-7) by (rule Field_arg_rejected)
  then have "Field_args ext reg (pre @ (argKey, arg) # post) [] = Inl (FieldArgumentNotInput argKey argType)"
    using assms(4) by (simp add: Field_args_first_rejected)
  then show ?thesis using assms(1-3) by simp
qed

lemma Field_thunk_accepted:
  assumes "getGraphQLType ext reg type = Inr T" "isOutputType ext T"
    and "\<forall>(k, a) \<in> set (case fc_args config of None \<Rightarrow> [] | Some args \<Rightarrow> args).
           \<exists>x aT N. Field_arg_shape ext a = Inr (x, aT)
             \<and> getGraphQLType ext reg aT = Inr N \<and> isInputType ext N"
  shows "\<exists>field. Field_thunk ext reg (FieldThunk type config target key) = Inr field"
proof -
  from Field_args_accepted [OF assms(3)] obtain fieldArgs where
    "Field_args ext reg (case fc_args config of None \<Rightarrow> [] | Some args \<Rightarrow> args) [] = Inr fieldArgs"
    by blast
  then show ?thesis using assms(1,2) by (simp add: Let_def)
qed

lemma Field_thunk_some_argument_rejected:
  assumes ty: "getGraphQLType ext reg type = Inr T" "isOutputType ext T"
    and args: "fc_args config = Some args"
    and res: "\<forall>(k, a) \<in> set args. \<exists>x aT N. Field_arg_shape ext a = Inr (x, aT)
        \<and> getGraphQLType ext reg aT = Inr N"
    and bad: "\<exists>(k, a) \<in> set args. \<exists>x aT N. Field_arg_shape ext a = Inr (x, aT)
        \<and> getGraphQLType ext reg aT = Inr N \<and> \<not> isInputType ext N"
  shows "\<exists>(k, a) \<in> set args. \<exists>x aT N. Field_arg_shape ext a = Inr (x, aT)
        \<and> getGraphQLType ext reg aT = Inr N \<and> \<not> isInputType ext N
        \<and> Field_thunk ext reg (FieldThunk type config target key) = Inl (FieldArgumentNotInput k aT)"
proof -
  let ?bad = "\<lambda>p. \<exists>x aT N. Field_arg_shape ext (snd p) = Inr (x, aT)
        \<and> getGraphQLType ext reg aT = Inr N \<and> \<not> isInputType ext N"
  from bad have "\<exists>p \<in> set args. ?bad p" by force
  then obtain pre p post where split: "args = pre @ p # post" "?bad p" "\<forall>q \<in> set pre. \<not> ?bad q"
    by (auto simp: split_list_first_prop_iff)
  obtain k a where p: "p = (k, a)" by (cases p)
  from split(2) p obtain x aT N where shape: "Field_arg_shape ext a = Inr (x, aT)"
    "getGraphQLType ext reg aT = Inr N" "\<not> isInputType ext N" by auto
  have pre: "\<forall>(k, a) \<in> set pre. \<exists>x aT N. Field_arg_shape ext a = Inr (x, aT)
        \<and> getGraphQLType ext reg aT = Inr N \<and> isInputType ext N"
  proof (clarify)
    fix k' a' assume mem: "(k', a') \<in> set pre"
    with res split(1) obtain x' aT' N' where r: "Field_arg_shape ext a' = Inr (x', aT')"
      "getGraphQLType ext reg aT' = Inr N'" by fastforce
    from split(3) mem have "\<not> ?bad (k', a')" by blast
    with r have "isInputType ext N'" by auto
    with r show "\<exists>x aT N. Field_arg_shape ext a' = Inr (x, aT)
        \<and> getGraphQLType ext reg aT = Inr N \<and> isInputType ext N" by blast
  qed
  have "Field_thunk ext reg (FieldThunk type config target key) = Inl (FieldArgumentNotInput k aT)"
    using ty args split(1) p pre shape
    by (intro Field_thunk_argument_rejected [where pre = pre and post = post and arg = a]) auto
  moreover have "(k, a) \<in> set args" using split(1) p by simp
  ultimately show ?thesis using shape by blast
qed

text \<open>
  Claim C4. Mounting a field is invoking its thunk. The thunk of a \<^verbatim>\<open>Field\<close> whose declared
  type resolves to a type that is not an output type throws \<open>TypeIsNotOutput\<close>; the thunk
  of an \<^verbatim>\<open>InputField\<close> whose declared type resolves to a type that is not an input type
  throws \<open>TypeIsNotInput\<close>. When the type of a \<^verbatim>\<open>Field\<close> is an output type, its arguments
  are checked in enumeration order: the first argument whose type resolves to a type that
  is not an input type throws the error that carries its key (third conjunct); hence, when
  every argument resolves and some argument is not of an input type, the thunk throws the
  error naming such an argument (fourth conjunct). When the declared type and every
  argument are of the right kind, the thunk returns a field config (last two conjuncts).
\<close>

theorem C4_wrong_kind_throws:
  "(getGraphQLType ext reg type = Inr T \<and> \<not> isOutputType ext T \<longrightarrow>
      Field_thunk ext reg (FieldThunk type config target key) = Inl TypeIsNotOutput)
   \<and> (getGraphQLType ext reg itype = Inr IT \<and> \<not> isInputType ext IT \<longrightarrow>
      InputField_thunk ext reg (InputFieldThunk itype iconfig target key) = Inl TypeIsNotInput)
   \<and> (getGraphQLType ext reg type = Inr T \<and> isOutputType ext T
       \<and> fc_args config = Some (pre @ (argKey, arg) # post)
       \<and> (\<forall>(k, a) \<in> set pre. \<exists>x aT N. Field_arg_shape ext a = Inr (x, aT)
              \<and> getGraphQLType ext reg aT = Inr N \<and> isInputType ext N)
       \<and> Field_arg_shape ext arg = Inr (extra, argType)
       \<and> getGraphQLType ext reg argType = Inr newType \<and> \<not> isInputType ext newType \<longrightarrow>
      Field_thunk ext reg (FieldThunk type config target key) = Inl (FieldArgumentNotInput argKey argType))
   \<and> (getGraphQLType ext reg type = Inr T \<and> isOutputType ext T
       \<and> fc_args config = Some args
       \<and> (\<forall>(k, a) \<in> set args. \<exists>x aT N. Field_arg_shape ext a = Inr (x, aT)
              \<and> getGraphQLType ext reg aT = Inr N)
       \<and> (\<exists>(k, a) \<in> set args. \<exists>x aT N. Field_arg_shape ext a = Inr (x, aT)
              \<and> getGraphQLType ext reg aT = Inr N \<and> \<not> isInputType ext N) \<longrightarrow>
      (\<exists>(k, a) \<in> set args. \<exists>x aT N. Field_arg_shape ext a = Inr (x, aT)
              \<and> getGraphQLType ext reg aT = Inr N \<and> \<not> isInputType ext N
              \<and> Field_thunk ext reg (FieldThunk type config target key) = Inl (FieldArgumentNotInput k aT)))
   \<and> (getGraphQLType ext reg type = Inr T \<and> isOutputType ext T
       \<and> (\<forall>(k, a) \<in> set (case fc_args config of None \<Rightarrow> [] | Some args \<Rightarrow> args).
              \<exists>x aT N. Field_arg_shape ext a = Inr (x, aT)
                \<and> getGraphQLType ext reg aT = Inr N \<and> isInputType ext N) \<longrightarrow>
      (\<exists>field. Field_thunk ext reg (FieldThunk type config target key) = Inr field))
   \<and> (getGraphQLType ext reg itype = Inr IT \<and> isInputType ext IT \<longrightarrow>
      (\<exists>field. InputField_thunk ext reg (InputFieldThunk itype iconfig target key) = Inr field))"
proof (intro conjI impI; (elim conjE)?)
  show "Field_thunk ext reg (FieldThunk type config target key) = Inl TypeIsNotOutput"
    if "getGraphQLType ext reg type = Inr T" "\<not> isOutputType ext T"
    using that by (rule Field_thunk_not_output)
  show "InputField_thunk ext reg (InputFieldThunk itype iconfig target key) = Inl TypeIsNotInput"
    if "getGraphQLType ext reg itype = Inr IT" "\<not> isInputType ext IT"
    using that by (rule InputField_thunk_not_input)
  show "Field_thunk ext reg (FieldThunk type config target key) = Inl (FieldArgumentNotInput argKey argType)"
    if "getGraphQLType ext reg type = Inr T" "isOutputType ext T"
      "fc_args config = Some (pre @ (argKey, arg) # post)"
      "\<forall>(k, a) \<in> set pre. \<exists>x aT N. Field_arg_shape ext a = Inr (x, aT)
              \<and> getGraphQLType ext reg aT = Inr N \<and> isInputType ext N"
      "Field_arg_shape ext arg = Inr (extra, argType)"
      "getGraphQLType ext reg argType = Inr newType" "\<not> isInputType ext newType"
    using that by (rule Field_thunk_argument_rejected)
  show "\<exists>(k, a) \<in> set args. \<exists>x aT N. Field_arg_shape ext a = Inr (x, aT)
              \<and> getGraphQLType ext reg aT = Inr N \<and> \<not> isInputType ext N
              \<and> Field_thunk ext reg (FieldThunk type config target key) = Inl (FieldArgumentNotInput k aT)"
    if "getGraphQLType ext reg type = Inr T" "isOutputType ext T" "fc_args config = Some args"
      "\<forall>(k, a) \<in> set args. \<exists>x aT N. Field_arg_shape ext a = Inr (x, aT)
              \<and> getGraphQLType ext reg aT = Inr N"
      "\<exists>(k, a) \<in> set args. \<exists>x aT N. Field_arg_shape ext a = Inr (x, aT)
              \<and> getGraphQLType ext reg aT = Inr N \<and> \<not> isInputType ext N"
    using that by (rule Field_thunk_some_argument_rejected)
  show "\<exists>field. Field_thunk ext reg (FieldThunk type config target key) = Inr field"
    if "getGraphQLType ext reg type = Inr T" "isOutputType ext T"
      "\<forall>(k, a) \<in> set (case fc_args config of None \<Rightarrow> [] | Some args \<Rightarrow> args).
              \<exists>x aT N. Field_arg_shape ext a = Inr (x, aT)
                \<and> getGraphQLType ext reg aT = Inr N \<and> isInputType ext N"
    using that by (rule Field_thunk_accepted)
  show "\<exists>field. InputField_thunk ext reg (InputFieldThunk itype iconfig target key) = Inr field"
    if "getGraphQLType ext reg itype = Inr IT" "isInputType ext IT"
    using that by (rule InputField_thunk_input)
qed

theorem C4_wrong_kind_throws_witness:
  "Field_thunk sample_externals emptyRegistry (FieldThunk (GraphQL reviewInputType) no_config Human ''review'')
     = Inl TypeIsNotOutput
   \<and> InputField_thunk sample_externals emptyRegistry
       (InputFieldThunk (GraphQL humanType) no_input_config ReviewInput ''author'') = Inl TypeIsNotInput
   \<and> Field_thunk sample_externals emptyRegistry (FieldThunk String heroArgs Human ''hero'')
     = Inl (FieldArgumentNotInput ''who'' (GraphQL humanType))
   \<and> (\<exists>(k, a) \<in> set [(''episode'', ID), (''who'', GraphQL humanType)].
       \<exists>x aT N. Field_arg_shape sample_externals a = Inr (x, aT)
              \<and> getGraphQLType sample_externals emptyRegistry aT = Inr N \<and> \<not> isInputType sample_externals N
              \<and> Field_thunk sample_externals emptyRegistry (FieldThunk String heroArgs Human ''hero'')
                  = Inl (FieldArgumentNotInput k aT))
   \<and> (\<exists>field. Field_thunk sample_externals emptyRegistry (FieldThunk String humanArgs Human ''human'') = Inr field)
   \<and> (\<exists>field. InputField_thunk sample_externals emptyRegistry
       (InputFieldThunk ID no_input_config ReviewInput ''stars'') = Inr field)"
proof -
  note c4 = C4_wrong_kind_throws [where ext = sample_externals and reg = emptyRegistry]
  have h1: "getGraphQLType sample_externals emptyRegistry (GraphQL reviewInputType) = Inr reviewInputType
      \<and> \<not> isOutputType sample_externals reviewInputType"
    by (simp add: sample_simps)
  have w1: "Field_thunk sample_externals emptyRegistry
      (FieldThunk (GraphQL reviewInputType) no_config Human ''review'') = Inl TypeIsNotOutput"
    using c4 [THEN conjunct1, rule_format, OF h1] .
  have h2: "getGraphQLType sample_externals emptyRegistry (GraphQL humanType) = Inr humanType
      \<and> \<not> isInputType sample_externals humanType"
    by (simp add: sample_simps)
  have w2: "InputField_thunk sample_externals emptyRegistry
      (InputFieldThunk (GraphQL humanType) no_input_config ReviewInput ''author'') = Inl TypeIsNotInput"
    using c4 [THEN conjunct2, THEN conjunct1, rule_format, OF h2] .
  have h3: "getGraphQLType sample_externals emptyRegistry String = Inr (GraphQLScalarType ''String'')
      \<and> isOutputType sample_externals (GraphQLScalarType ''String'')
      \<and> fc_args heroArgs = Some ([(''episode'', ID)] @ (''who'', GraphQL humanType) # [])
      \<and> (\<forall>(k, a) \<in> set [(''episode'', ID)]. \<exists>x aT N. Field_arg_shape sample_externals a = Inr (x, aT)
              \<and> getGraphQLType sample_externals emptyRegistry aT = Inr N \<and> isInputType sample_externals N)
      \<and> Field_arg_shape sample_externals (GraphQL humanType) = Inr (None, GraphQL humanType)
      \<and> getGraphQLType sample_externals emptyRegistry (GraphQL humanType) = Inr humanType
      \<and> \<not> isInputType sample_externals humanType"
    by (simp add: sample_simps heroArgs_def)
  have w3: "Field_thunk sample_externals emptyRegistry (FieldThunk String heroArgs Human ''hero'')
     = Inl (FieldArgumentNotInput ''who'' (GraphQL humanType))"
    using c4 [THEN conjunct2, THEN conjunct2, THEN conjunct1, rule_format, OF h3] .
  have h3b: "getGraphQLType sample_externals emptyRegistry String = Inr (GraphQLScalarType ''String'')
      \<and> isOutputType sample_externals (GraphQLScalarType ''String'')
      \<and> fc_args heroArgs = Some [(''episode'', ID), (''who'', GraphQL humanType)]
      \<and> (\<forall>(k, a) \<in> set [(''episode'', ID), (''who'', GraphQL humanType)].
              \<exists>x aT N. Field_arg_shape sample_externals a = Inr (x, aT)
              \<and> getGraphQLType sample_externals emptyRegistry aT = Inr N)
      \<and> (\<exists>(k, a) \<in> set [(''episode'', ID), (''who'', GraphQL humanType)].
              \<exists>x aT N. Field_arg_shape sample_externals a = Inr (x, aT)
              \<and> getGraphQLType sample_externals emptyRegistry aT = Inr N \<and> \<not> isInputType sample_externals N)"
    by (simp add: sample_simps heroArgs_def)
  have w3b: "\<exists>(k, a) \<in> set [(''episode'', ID), (''who'', GraphQL humanType)].
       \<exists>x aT N. Field_arg_shape sample_externals a = Inr (x, aT)
              \<and> getGraphQLType sample_externals emptyRegistry aT = Inr N \<and> \<not> isInputType sample_externals N
              \<and> Field_thunk sample_externals emptyRegistry (FieldThunk String heroArgs Human ''hero'')
                  = Inl (FieldArgumentNotInput k aT)"
    using c4 [THEN conjunct2, THEN conjunct2, THEN conjunct2, THEN conjunct1, rule_format, OF h3b] .
  have h4: "getGraphQLType sample_externals emptyRegistry String = Inr (GraphQLScalarType ''String'')
      \<and> isOutputType sample_externals (GraphQLScalarType ''String'')
      \<and> (\<forall>(k, a) \<in> set (case fc_args humanArgs of None \<Rightarrow> [] | Some args \<Rightarrow> args).
              \<exists>x aT N. Field_arg_shape sample_externals a = Inr (x, aT)
                \<and> getGraphQLType sample_externals emptyRegistry aT = Inr N \<and> isInputType sample_externals N)"
    by (simp add: sample_simps humanArgs_def)
  have w4: "\<exists>field. Field_thunk sample_externals emptyRegistry (FieldThunk String humanArgs Human ''human'') = Inr field"
    using c4 [THEN conjunct2, THEN conjunct2, THEN conjunct2, THEN conjunct2, THEN conjunct1, rule_format, OF h4] .
  have h5: "getGraphQLType sample_externals emptyRegistry ID = Inr (GraphQLScalarType ''ID'')
      \<and> isInputType sample_externals (GraphQLScalarType ''ID'')"
    by (simp add: sample_simps)
  have w5: "\<exists>field. InputField_thunk sample_externals emptyRegistry
       (InputFieldThunk ID no_input_config ReviewInput ''stars'') = Inr field"
    using c4 [THEN conjunct2, THEN conjunct2, THEN conjunct2, THEN conjunct2, THEN conjunct2, rule_format, OF h5] .
  from w1 w2 w3 w3b w4 w5 show ?thesis by (intro conjI)
qed

lemma map_of_snoc_fresh: "key \<notin> set (map fst al) \<Longrightarrow> map_of (al @ [(key, v)]) key = Some v"
  by (induction al) auto

text \<open>
  Claim C6. Applying \<^verbatim>\<open>Field(type, config)\<close> to a property resolves and validates nothing:
  whether it throws depends on the name and the pending map alone, whatever \<^verbatim>\<open>type\<close> and
  \<^verbatim>\<open>config\<close> are; the only error it can throw is the duplicate-field error; on a fresh
  name it only records the thunk under that name. The errors about the declared type (a
  reference that does not resolve, a type that is not an output type) are results of
  invoking the recorded thunk, in whatever state the registry is in by then.
\<close>

theorem C6_field_decoration_defers_resolution:
  "fst (Field_decorator type config target key reg) =
     (if key \<in> set (map fst (getFields reg (cid target)))
      then Inl (FieldAlreadyDefined key (cid target)) else Inr ())
   \<and> (\<forall>e. fst (Field_decorator type config target key reg) = Inl e \<longrightarrow>
          e = FieldAlreadyDefined key (cid target))
   \<and> (key \<notin> set (map fst (getFields reg (cid target))) \<longrightarrow>
        snd (Field_decorator type config target key reg) =
          reg\<lparr> pendingFields := (pendingFields reg)
            (cid target := getFields reg (cid target) @ [(key, FieldThunk type config target key)]) \<rparr>
        \<and> map_of (getFields (snd (Field_decorator type config target key reg)) (cid target)) key
            = Some (FieldThunk type config target key))
   \<and> (getGraphQLType ext later type = Inl msg \<longrightarrow>
        Field_thunk ext later (FieldThunk type config target key) = Inl (ReflectionError msg))
   \<and> (getGraphQLType ext later type = Inr T \<and> \<not> isOutputType ext T \<longrightarrow>
        Field_thunk ext later (FieldThunk type config target key) = Inl TypeIsNotOutput)"
proof (intro conjI)
  show "fst (Field_decorator type config target key reg) =
     (if key \<in> set (map fst (getFields reg (cid target)))
      then Inl (FieldAlreadyDefined key (cid target)) else Inr ())"
    by (simp add: Field_decorator_duplicate Field_decorator_fresh)
  then show "\<forall>e. fst (Field_decorator type config target key reg) = Inl e \<longrightarrow>
          e = FieldAlreadyDefined key (cid target)"
    by (simp split: if_splits)
  show "key \<notin> set (map fst (getFields reg (cid target))) \<longrightarrow>
        snd (Field_decorator type config target key reg) =
          reg\<lparr> pendingFields := (pendingFields reg)
            (cid target := getFields reg (cid target) @ [(key, FieldThunk type config target key)]) \<rparr>
        \<and> map_of (getFields (snd (Field_decorator type config target key reg)) (cid target)) key
            = Some (FieldThunk type config target key)"
  proof (intro impI conjI)
    assume fresh: "key \<notin> set (map fst (getFields reg (cid target)))"
    show s: "snd (Field_decorator type config target key reg) =
          reg\<lparr> pendingFields := (pendingFields reg)
            (cid target := getFields reg (cid target) @ [(key, FieldThunk type config target key)]) \<rparr>"
      by (simp add: Field_decorator_fresh [OF fresh])
    have "getFields (snd (Field_decorator type config target key reg)) (cid target)
        = getFields reg (cid target) @ [(key, FieldThunk type config target key)]"
      unfolding s by (simp add: getFields_def)
    then show "map_of (getFields (snd (Field_decorator type config target key reg)) (cid target)) key
            = Some (FieldThunk type config target key)"
      using map_of_snoc_fresh [OF fresh] by simp
  qed
  show "getGraphQLType ext later type = Inl msg \<longrightarrow>
        Field_thunk ext later (FieldThunk type config target key) = Inl (ReflectionError msg)"
    by simp
  show "getGraphQLType ext later type = Inr T \<and> \<not> isOutputType ext T \<longrightarrow>
        Field_thunk ext later (FieldThunk type config target key) = Inl TypeIsNotOutput"
    by simp
qed

theorem C6_field_decoration_defers_resolution_witness:
  "fst (Field_decorator (ClassRef 9) no_config Character ''appearsIn'' starWarsFields) = Inr ()
   \<and> map_of (getFields (snd (Field_decorator (ClassRef 9) no_config Character ''appearsIn'' starWarsFields))
         (cid Character)) ''appearsIn''
       = Some (FieldThunk (ClassRef 9) no_config Character ''appearsIn'')
   \<and> Field_thunk sample_externals starWarsFields (FieldThunk (ClassRef 9) no_config Character ''appearsIn'')
       = Inl (ReflectionError ''The target class have no GraphQL type associated to it.'')
   \<and> fst (Field_decorator (GraphQL reviewInputType) no_config Character ''appearsIn'' starWarsFields) = Inr ()
   \<and> Field_thunk sample_externals starWarsFields
         (FieldThunk (GraphQL reviewInputType) no_config Character ''appearsIn'') = Inl TypeIsNotOutput
   \<and> fst (Field_decorator (ClassRef 9) no_config Character ''id'' starWarsFields)
       = Inl (FieldAlreadyDefined ''id'' (cid Character))"
proof -
  have fresh: "''appearsIn'' \<notin> set (map fst (getFields starWarsFields (cid Character)))"
    by (simp add: getFields_def starWarsFields_def Character_def)
  have dup: "''id'' \<in> set (map fst (getFields starWarsFields (cid Character)))"
    by (simp add: getFields_def starWarsFields_def Character_def)
  have unresolved: "getGraphQLType sample_externals starWarsFields (ClassRef 9)
      = Inl ''The target class have no GraphQL type associated to it.''"
    by (simp add: sample_simps starWarsFields_def emptyRegistry_def)
  have not_output: "getGraphQLType sample_externals starWarsFields (GraphQL reviewInputType)
      = Inr reviewInputType \<and> \<not> isOutputType sample_externals reviewInputType"
    by (simp add: sample_simps)
  note c6 = C6_field_decoration_defers_resolution [where config = no_config and target = Character
      and reg = starWarsFields and ext = sample_externals and later = starWarsFields]
  note a = c6 [where type = "ClassRef 9" and key = "''appearsIn''"
      and msg = "''The target class have no GraphQL type associated to it.''"]
  note b = c6 [where type = "GraphQL reviewInputType" and key = "''appearsIn''" and T = reviewInputType]
  note c = c6 [where type = "ClassRef 9" and key = "''id''"]
  have w1: "fst (Field_decorator (ClassRef 9) no_config Character ''appearsIn'' starWarsFields) = Inr ()"
    using a [THEN conjunct1] fresh by simp
  have w2: "map_of (getFields (snd (Field_decorator (ClassRef 9) no_config Character ''appearsIn'' starWarsFields))
         (cid Character)) ''appearsIn''
       = Some (FieldThunk (ClassRef 9) no_config Character ''appearsIn'')"
    using a [THEN conjunct2, THEN conjunct2, THEN conjunct1, rule_format, OF fresh] by (rule conjunct2)
  have w3: "Field_thunk sample_externals starWarsFields (FieldThunk (ClassRef 9) no_config Character ''appearsIn'')
       = Inl (ReflectionError ''The target class have no GraphQL type associated to it.'')"
    using a [THEN conjunct2, THEN conjunct2, THEN conjunct2, THEN conjunct1, rule_format, OF unresolved] .
  have w4: "fst (Field_decorator (GraphQL reviewInputType) no_config Character ''appearsIn'' starWarsFields) = Inr ()"
    using b [THEN conjunct1] fresh by simp
  have w5: "Field_thunk sample_externals starWarsFields
         (FieldThunk (GraphQL reviewInputType) no_config Character ''appearsIn'') = Inl TypeIsNotOutput"
    using b [THEN conjunct2, THEN conjunct2, THEN conjunct2, THEN conjunct2, rule_format, OF not_output] .
  have w6: "fst (Field_decorator (ClassRef 9) no_config Character ''id'' starWarsFields)
       = Inl (FieldAlreadyDefined ''id'' (cid Character))"
    using c [THEN conjunct1] dup by simp
  from w1 w2 w3 w4 w5 w6 show ?thesis by (intro conjI)
qed

text \<open>
  Claim C10. When the thunk of a \<^verbatim>\<open>Field\<close> is invoked and returns a field config: if the
  value found then at the decorated property of the prototype is a function, the resolver
  of the config calls that function with \<^verbatim>\<open>this\<close> bound to the root and the arguments
  \<^verbatim>\<open>(args, context, info)\<close>, and returns its result; otherwise the resolver is the
  library's \<^verbatim>\<open>defaultFieldResolver\<close>. The property is read in the state of the invocation,
  not in the state in which \<^verbatim>\<open>Field\<close> ran.
\<close>

theorem C10_field_resolver:
  "Field_thunk ext reg (FieldThunk type config target key) = Inr field \<longrightarrow>
     (\<forall>f. get_property (prototypes reg (cid target)) key = JSFunction f \<longrightarrow>
        field_resolve field = TargetResolver f
        \<and> (\<forall>root args context info.
              apply_resolver ext (field_resolve field) root args context info
                = call ext f root [args, context, info]))
     \<and> ((\<forall>f. get_property (prototypes reg (cid target)) key \<noteq> JSFunction f) \<longrightarrow>
        field_resolve field = DefaultFieldResolver
        \<and> (\<forall>root args context info.
              apply_resolver ext (field_resolve field) root args context info
                = defaultFieldResolver ext root args context info))"
  by (cases "get_property (prototypes reg (cid target)) key")
     (auto simp: Let_def split: sum.splits if_splits)

lemma queryWrapped_thunk:
  "map_of (getFields queryWrapped (cid Query)) ''hero'' = Some (FieldThunk String no_config Query ''hero'')"
  by (simp add: queryWrapped_def queryDeclared_def emptyRegistry_def Query_def getFields_def
        Field_decorator_def)

lemma queryWrapped_prototype:
  "get_property (prototypes queryDeclared (cid Query)) ''hero'' = JSFunction 21"
  "get_property (prototypes queryWrapped (cid Query)) ''hero'' = JSFunction 12"
  by (simp_all add: queryWrapped_def queryDeclared_def emptyRegistry_def Query_def get_property_def)

text \<open>
  The same stored thunk gives the declared method when invoked in the state \<^verbatim>\<open>Field\<close>
  left, and the installed one when invoked after the host has replaced the method.
\<close>

lemma Field_thunk_reads_live_prototype:
  "Field_thunk sample_externals (snd (Field_decorator String no_config Query ''hero'' queryDeclared))
       (FieldThunk String no_config Query ''hero'')
     = Inr (GraphQLFieldConfig [] (GraphQLScalarType ''String'') None None (TargetResolver 21))"
  "Field_thunk sample_externals queryWrapped (FieldThunk String no_config Query ''hero'')
     = Inr (GraphQLFieldConfig [] (GraphQLScalarType ''String'') None None (TargetResolver 12))"
  by (simp_all add: sample_simps no_config_def queryWrapped_def queryDeclared_def Query_def
        emptyRegistry_def getDescription_def getDeprecationReason_def get_property_def
        Field_decorator_def Let_def getFields_def)

theorem C10_field_resolver_witness:
  "field_resolve (GraphQLFieldConfig [] (GraphQLScalarType ''String'') None None (TargetResolver 12))
     = TargetResolver 12
   \<and> apply_resolver sample_externals
       (field_resolve (GraphQLFieldConfig [] (GraphQLScalarType ''String'') None None (TargetResolver 12)))
       (JSObject 1) (JSObject 2) JSNull JSNull
     = call sample_externals 12 (JSObject 1) [JSObject 2, JSNull, JSNull]
   \<and> field_resolve (GraphQLFieldConfig [] (GraphQLScalarType ''String'') None None DefaultFieldResolver)
     = DefaultFieldResolver
   \<and> apply_resolver sample_externals
       (field_resolve (GraphQLFieldConfig [] (GraphQLScalarType ''String'') None None DefaultFieldResolver))
       (JSObject 1) (JSObject 2) JSNull JSNull
     = defaultFieldResolver sample_externals (JSObject 1) (JSObject 2) JSNull JSNull"
proof -
  have hero: "Field_thunk sample_externals queryWrapped (FieldThunk String no_config Query ''hero'')
      = Inr (GraphQLFieldConfig [] (GraphQLScalarType ''String'') None None (TargetResolver 12))"
    by (rule Field_thunk_reads_live_prototype(2))
  have name: "Field_thunk sample_externals starWarsFields (FieldThunk String no_config Character ''name'')
      = Inr (GraphQLFieldConfig [] (GraphQLScalarType ''String'') None None DefaultFieldResolver)"
    by (simp add: sample_simps no_config_def Character_def starWarsFields_def emptyRegistry_def
          getDescription_def getDeprecationReason_def get_property_def)
  have no_fun: "\<forall>f. get_property (prototypes starWarsFields (cid Character)) ''name'' \<noteq> JSFunction f"
    by (simp add: Character_def starWarsFields_def get_property_def)
  note a = C10_field_resolver [THEN mp, OF hero, THEN conjunct1, THEN spec, THEN mp,
      OF queryWrapped_prototype(2)]
  note b = C10_field_resolver [THEN mp, OF name, THEN conjunct2, THEN mp, OF no_fun]
  from a b show ?thesis by blast
qed

text \<open>
  Claim C3. An argument supplied as the record \<^verbatim>\<open>{type, description, defaultValue}\<close> should
  resolve into an argument config with that type, description and default value. The thunk
  copies the description only: for the argument
  \<^verbatim>\<open>Argument(String, "The description", "value")\<close> the argument config has the resolved
  type and the description, and no default value.
\<close>

theorem C3_defaultValue_dropped:
  "Field_thunk sample_externals emptyRegistry (FieldThunk String humanArgs Human ''human'')
     = Inr (GraphQLFieldConfig
              [(''id'', GraphQLArgumentConfig (GraphQLScalarType ''String'') (Some ''The description'') JSUndefined)]
              (GraphQLScalarType ''String'') None None DefaultFieldResolver)"
  by (simp add: sample_simps humanArgs_def Field_arg_def Human_def emptyRegistry_def
        getDescription_def getDeprecationReason_def get_property_def)

lemma Field_arg_record:
  "t \<noteq> Undefined \<Longrightarrow> getGraphQLType ext reg t = Inr N \<Longrightarrow> isInputType ext N \<Longrightarrow>
   Field_arg ext reg argKey (ArgumentType t d v) = Inr (GraphQLArgumentConfig N d JSUndefined)"
  by (simp add: Field_arg_def Field_arg_shape_def)

lemma Field_arg_bare:
  "has_type_property arg = Inr False \<Longrightarrow> getGraphQLType ext reg arg = Inr N \<Longrightarrow> isInputType ext N \<Longrightarrow>
   Field_arg ext reg argKey arg = Inr (GraphQLArgumentConfig N None JSUndefined)"
  by (simp add: Field_arg_def Field_arg_shape_def)

section \<open>Properties of the class decorators\<close>

lemma spread_Cons: "spread a ((k, v) # b) = spread (AList.update k v a) b"
  by (simp add: spread_def)

lemma map_of_spread:
  "distinct (map fst b) \<Longrightarrow> map_of (spread a b) = map_of a ++ map_of b"
proof (induction b arbitrary: a)
  case Nil
  then show ?case by (simp add: spread_def)
next
  case (Cons p b)
  obtain k v where p: "p = (k, v)" by (cases p)
  from Cons.prems p have fresh: "k \<notin> dom (map_of b)" and d: "distinct (map fst b)"
    by (auto simp: dom_map_of_conv_image_fst)
  have "map_of (spread a (p # b)) = map_of (spread (AList.update k v a) b)"
    using p by (simp only: spread_Cons)
  also have "\<dots> = map_of (AList.update k v a) ++ map_of b"
    by (rule Cons.IH [OF d])
  also have "\<dots> = (map_of a)(k \<mapsto> v) ++ map_of b"
    by (simp only: update_conv')
  also have "\<dots> = map_of a ++ map_of (p # b)"
    using fresh p by (auto simp: map_add_def fun_eq_iff split: option.splits)
  finally show ?case .
qed

lemma keys_spread: "fst ` set (spread a b) = fst ` set a \<union> fst ` set b"
proof (induction b arbitrary: a)
  case Nil
  then show ?case by (simp add: spread_def)
next
  case (Cons p b)
  obtain k v where p: "p = (k, v)" by (cases p)
  show ?case using Cons.IH [of "AList.update k v a"] p
    by (auto simp: spread_Cons dom_update)
qed

lemma distinct_spread: "distinct (map fst a) \<Longrightarrow> distinct (map fst (spread a b))"
proof (induction b arbitrary: a)
  case Nil
  then show ?case by (simp add: spread_def)
next
  case (Cons p b)
  obtain k v where p: "p = (k, v)" by (cases p)
  show ?case using Cons.IH [of "AList.update k v a"] Cons.prems p
    by (simp add: spread_Cons distinct_update)
qed

lemma map_of_fold_spread:
  "\<forall>i \<in> set ifaces. distinct (map fst (getFields reg i)) \<Longrightarrow>
   map_of (fold (\<lambda>iface acc. spread acc (getFields reg iface)) ifaces acc)
     = fold (\<lambda>i m. m ++ map_of (getFields reg i)) ifaces (map_of acc)"
  by (induction ifaces arbitrary: acc) (simp_all add: map_of_spread)

lemma keys_fold_spread:
  "fst ` set (fold (\<lambda>iface acc. spread acc (getFields reg iface)) ifaces acc)
     = fst ` set acc \<union> (\<Union>i \<in> set ifaces. fst ` set (getFields reg i))"
  by (induction ifaces arbitrary: acc) (auto simp: keys_spread)

lemma map_of_allInterfaceFields:
  "\<forall>i \<in> set ifaces. distinct (map fst (getFields reg i)) \<Longrightarrow>
   map_of (allInterfaceFields reg ifaces) = fold (\<lambda>i m. m ++ map_of (getFields reg i)) ifaces Map.empty"
  using map_of_fold_spread [of ifaces reg "[]"] by (simp add: allInterfaceFields_def)

lemma keys_allInterfaceFields:
  "fst ` set (allInterfaceFields reg ifaces) = (\<Union>i \<in> set ifaces. fst ` set (getFields reg i))"
  using keys_fold_spread [of reg ifaces "[]"] by (simp add: allInterfaceFields_def)

lemma mountFields_keys: "mountFields ext reg fs = Inr mounted \<Longrightarrow> map fst mounted = map fst fs"
  by (induction fs arbitrary: mounted) (auto split: sum.splits)

lemma ObjectType_success:
  assumes "ObjectType ext opts target reg = (Inr t, reg')"
  shows "\<exists>interfaces mounted.
     ObjectType_interfaces ext reg (case otc_interfaces opts of None \<Rightarrow> [] | Some is \<Rightarrow> is) = Inr interfaces
     \<and> mountFields ext reg
         (ObjectType_fields reg (case otc_interfaces opts of None \<Rightarrow> [] | Some is \<Rightarrow> is) target) = Inr mounted
     \<and> t = target
     \<and> reg' = setGraphQLType (cid target)
         (GraphQLObjectType (or_name (otc_name opts) (className target))
            (or_string (otc_description opts) (getDescription reg (OfClass (cid target))))
            interfaces mounted) reg"
  using assms by (auto simp: ObjectType_def Let_def split: sum.splits option.splits)

lemma graphQLTypes_setGraphQLType: "graphQLTypes (setGraphQLType c T reg) c = Some T"
  by (simp add: setGraphQLType_def)

text \<open>
  The pending maps that the property decorators build have pairwise distinct keys: the
  empty registry has, and \<^verbatim>\<open>Field\<close> keeps it so.
\<close>

lemma emptyRegistry_distinct: "distinct (map fst (getFields emptyRegistry c))"
  by (simp add: getFields_def emptyRegistry_def)

lemma Field_decorator_distinct:
  assumes "distinct (map fst (getFields reg c))"
  shows "distinct (map fst (getFields (snd (Field_decorator type config target key reg)) c))"
proof (cases "key \<in> set (map fst (getFields reg (cid target)))")
  case True
  then show ?thesis using assms by (simp add: Field_decorator_duplicate)
next
  case False
  then show ?thesis using assms by (auto simp: Field_decorator_fresh getFields_def)
qed

text \<open>Mounting stops at the first thunk that throws.\<close>

lemma mountFields_first_error:
  "mountFields ext reg pre = Inr mounted \<Longrightarrow> Field_thunk ext reg thunk = Inl e
   \<Longrightarrow> mountFields ext reg (pre @ (key, thunk) # post) = Inl e"
  by (induction pre arbitrary: mounted) (auto split: sum.splits)

text \<open>The decorators run on the sample classes.\<close>

lemma Character_decorated:
  "InterfaceType sample_externals characterOpts Character starWarsFields = (Inr Character, starWarsRegistry)"
  by (simp add: InterfaceType_def starWarsRegistry_def characterType_def characterOpts_def
        starWarsFields_def emptyRegistry_def Character_def getFields_def sample_simps no_config_def
        getDescription_def getDeprecationReason_def get_property_def or_name_def or_string_def)

lemma Human_fields:
  "ObjectType_fields starWarsRegistry [2] Human =
     [(''id'', FieldThunk ID no_config Character ''id''),
      (''name'', FieldThunk ID no_config Human ''name''),
      (''friends'', FieldThunk String no_config Character ''friends''),
      (''homePlanet'', FieldThunk String no_config Human ''homePlanet'')]"
  by (simp add: ObjectType_fields_def allInterfaceFields_def spread_def getFields_def
        starWarsRegistry_def setGraphQLType_def starWarsFields_def emptyRegistry_def Human_def)

lemma Human_decorated:
  "ObjectType sample_externals humanOpts Human starWarsRegistry
     = (Inr Human, setGraphQLType 3 humanObjectType starWarsRegistry)"
proof -
  have i: "ObjectType_interfaces sample_externals starWarsRegistry [2] = Inr [characterType]"
    by (simp add: sample_externals_def starWarsRegistry_def setGraphQLType_def characterType_def)
  have m: "mountFields sample_externals starWarsRegistry (ObjectType_fields starWarsRegistry [2] Human)
      = Inr [(''id'', GraphQLFieldConfig [] (GraphQLScalarType ''ID'') None None DefaultFieldResolver),
      (''name'', GraphQLFieldConfig [] (GraphQLScalarType ''ID'') None None DefaultFieldResolver),
      (''friends'', GraphQLFieldConfig [] (GraphQLScalarType ''String'') None None (TargetResolver 7)),
      (''homePlanet'', GraphQLFieldConfig [] (GraphQLScalarType ''String'') None None DefaultFieldResolver)]"
    unfolding Human_fields
    by (simp add: sample_simps no_config_def Character_def Human_def getDescription_def
          getDeprecationReason_def get_property_def starWarsRegistry_def setGraphQLType_def
          starWarsFields_def emptyRegistry_def)
  have a: "assertFields sample_externals Human (ObjectType_fields starWarsRegistry [2] Human) = None"
    unfolding Human_fields by (simp add: sample_externals_def)
  have c: "cid Human = 3" "className Human = ''Human''" by (simp_all add: Human_def)
  have d: "getDescription starWarsRegistry (OfClass 3) = None"
    by (simp add: getDescription_def starWarsRegistry_def setGraphQLType_def starWarsFields_def emptyRegistry_def)
  show ?thesis
    by (simp add: ObjectType_def Let_def humanOpts_def i m a c d humanObjectType_def or_name_def or_string_def
          del: ObjectType_interfaces.simps mountFields.simps)
qed

lemma ReviewInput_decorated:
  "InputObjectType sample_externals reviewOpts ReviewInput reviewFields
     = (Inr ReviewInput, setGraphQLType 4 reviewInputObjectType reviewFields)"
  by (simp add: InputObjectType_def reviewOpts_def reviewFields_def emptyRegistry_def ReviewInput_def
        getInputFields_def sample_simps no_input_config_def getDescription_def getDeprecationReason_def
        get_property_def or_name_def or_string_def or_value_def reviewInputObjectType_def)

lemma Episode_values:
  "EnumType_values episodeMetadata Episode =
     [(''NEWHOPE'', GraphQLEnumValueConfig (JSNumber 4) (Some ''Released in 1977.'') None),
      (''EMPIRE'', GraphQLEnumValueConfig (JSNumber 5) (Some ''Released in 1980.'') None),
      (''JEDI'', GraphQLEnumValueConfig (JSNumber 6) (Some ''Released in 1983.'') None)]"
  by (simp add: EnumType_values_def getStaticProperties_def BaseClassProperties_def Episode_def
        episodeMetadata_def emptyRegistry_def getDescription_def getDeprecationReason_def get_property_def)

lemma Episode_decorated:
  "EnumType episodeOpts Episode episodeMetadata = (Inr Episode, setGraphQLType 1 episodeType episodeMetadata)"
  unfolding EnumType_def Episode_values
  by (simp add: episodeOpts_def Episode_def episodeMetadata_def emptyRegistry_def getDescription_def
        or_name_def or_string_def episodeType_def)

text \<open>
  Claim C1. For a class decorated with \<^verbatim>\<open>ObjectType\<close> whose config lists interfaces, the
  field map handed to the mounting is formed by inserting the fields of every listed
  interface in list order and then the fields of the class itself. With pending maps whose
  keys are distinct: as a map it is the interfaces' maps overridden one by the next and
  then by the class's map; a field of the class under the name of an inherited one
  overrides it; a name the class does not declare keeps its inherited thunk; every
  inherited name is present; and the object type that a successful decoration registers
  has exactly the names of that map, mounted from it.
\<close>

theorem C1_interface_fields_merged:
  "distinct (map fst (getFields reg (cid target)))
   \<and> (\<forall>i \<in> set ifaces. distinct (map fst (getFields reg i))) \<longrightarrow>
     map_of (ObjectType_fields reg ifaces target)
       = fold (\<lambda>i m. m ++ map_of (getFields reg i)) ifaces Map.empty ++ map_of (getFields reg (cid target))
     \<and> (\<forall>key thunk. map_of (getFields reg (cid target)) key = Some thunk \<longrightarrow>
           map_of (ObjectType_fields reg ifaces target) key = Some thunk)
     \<and> (\<forall>key. key \<notin> fst ` set (getFields reg (cid target)) \<longrightarrow>
           map_of (ObjectType_fields reg ifaces target) key = map_of (allInterfaceFields reg ifaces) key)
     \<and> (\<forall>i \<in> set ifaces. \<forall>key \<in> fst ` set (getFields reg i).
           key \<in> fst ` set (ObjectType_fields reg ifaces target))
     \<and> (\<forall>ext opts t reg'. otc_interfaces opts = Some ifaces
           \<and> ObjectType ext opts target reg = (Inr t, reg') \<longrightarrow>
           (\<exists>name description interfaces mounted.
              graphQLTypes reg' (cid target) = Some (GraphQLObjectType name description interfaces mounted)
              \<and> mountFields ext reg (ObjectType_fields reg ifaces target) = Inr mounted
              \<and> map fst mounted = map fst (ObjectType_fields reg ifaces target)))"
proof (intro impI, elim conjE)
  assume own: "distinct (map fst (getFields reg (cid target)))"
    and inherited: "\<forall>i \<in> set ifaces. distinct (map fst (getFields reg i))"
  have merged: "map_of (ObjectType_fields reg ifaces target)
      = map_of (allInterfaceFields reg ifaces) ++ map_of (getFields reg (cid target))"
    unfolding ObjectType_fields_def using own by (rule map_of_spread)
  have 1: "map_of (ObjectType_fields reg ifaces target)
       = fold (\<lambda>i m. m ++ map_of (getFields reg i)) ifaces Map.empty ++ map_of (getFields reg (cid target))"
    using merged map_of_allInterfaceFields [OF inherited] by simp
  have 2: "\<forall>key thunk. map_of (getFields reg (cid target)) key = Some thunk \<longrightarrow>
           map_of (ObjectType_fields reg ifaces target) key = Some thunk"
    using merged by (simp add: map_add_Some_iff)
  have 3: "\<forall>key. key \<notin> fst ` set (getFields reg (cid target)) \<longrightarrow>
           map_of (ObjectType_fields reg ifaces target) key = map_of (allInterfaceFields reg ifaces) key"
  proof (intro allI impI)
    fix key assume "key \<notin> fst ` set (getFields reg (cid target))"
    then have "map_of (getFields reg (cid target)) key = None"
      by (simp add: map_of_eq_None_iff)
    with merged show "map_of (ObjectType_fields reg ifaces target) key
        = map_of (allInterfaceFields reg ifaces) key"
      by (simp add: map_add_def)
  qed
  have 4: "\<forall>i \<in> set ifaces. \<forall>key \<in> fst ` set (getFields reg i).
           key \<in> fst ` set (ObjectType_fields reg ifaces target)"
    unfolding ObjectType_fields_def keys_spread keys_allInterfaceFields by blast
  have 5: "\<forall>ext opts t reg'. otc_interfaces opts = Some ifaces
           \<and> ObjectType ext opts target reg = (Inr t, reg') \<longrightarrow>
           (\<exists>name description interfaces mounted.
              graphQLTypes reg' (cid target) = Some (GraphQLObjectType name description interfaces mounted)
              \<and> mountFields ext reg (ObjectType_fields reg ifaces target) = Inr mounted
              \<and> map fst mounted = map fst (ObjectType_fields reg ifaces target))"
  proof (intro allI impI, elim conjE)
    fix ext opts t reg'
    assume opts: "otc_interfaces opts = Some ifaces"
      and ok: "ObjectType ext opts target reg = (Inr t, reg')"
    from ObjectType_success [OF ok] opts obtain interfaces mounted where
      m: "mountFields ext reg (ObjectType_fields reg ifaces target) = Inr mounted"
      and r: "reg' = setGraphQLType (cid target)
         (GraphQLObjectType (or_name (otc_name opts) (className target))
            (or_string (otc_description opts) (getDescription reg (OfClass (cid target))))
            interfaces mounted) reg"
      by auto
    from r have "graphQLTypes reg' (cid target) = Some (GraphQLObjectType (or_name (otc_name opts) (className target))
            (or_string (otc_description opts) (getDescription reg (OfClass (cid target))))
            interfaces mounted)"
      by (simp only: graphQLTypes_setGraphQLType)
    with m mountFields_keys [OF m]
    show "\<exists>name description interfaces mounted.
              graphQLTypes reg' (cid target) = Some (GraphQLObjectType name description interfaces mounted)
              \<and> mountFields ext reg (ObjectType_fields reg ifaces target) = Inr mounted
              \<and> map fst mounted = map fst (ObjectType_fields reg ifaces target)"
      by blast
  qed
  from 1 2 3 4 5 show "map_of (ObjectType_fields reg ifaces target)
       = fold (\<lambda>i m. m ++ map_of (getFields reg i)) ifaces Map.empty ++ map_of (getFields reg (cid target))
     \<and> (\<forall>key thunk. map_of (getFields reg (cid target)) key = Some thunk \<longrightarrow>
           map_of (ObjectType_fields reg ifaces target) key = Some thunk)
     \<and> (\<forall>key. key \<notin> fst ` set (getFields reg (cid target)) \<longrightarrow>
           map_of (ObjectType_fields reg ifaces target) key = map_of (allInterfaceFields reg ifaces) key)
     \<and> (\<forall>i \<in> set ifaces. \<forall>key \<in> fst ` set (getFields reg i).
           key \<in> fst ` set (ObjectType_fields reg ifaces target))
     \<and> (\<forall>ext opts t reg'. otc_interfaces opts = Some ifaces
           \<and> ObjectType ext opts target reg = (Inr t, reg') \<longrightarrow>
           (\<exists>name description interfaces mounted.
              graphQLTypes reg' (cid target) = Some (GraphQLObjectType name description interfaces mounted)
              \<and> mountFields ext reg (ObjectType_fields reg ifaces target) = Inr mounted
              \<and> map fst mounted = map fst (ObjectType_fields reg ifaces target)))"
    by (intro conjI)
qed

theorem C1_interface_fields_merged_witness:
  "map_of (ObjectType_fields starWarsRegistry [2] Human) ''name'' = Some (FieldThunk ID no_config Human ''name'')
   \<and> map_of (ObjectType_fields starWarsRegistry [2] Human) ''id''
       = map_of (allInterfaceFields starWarsRegistry [2]) ''id''
   \<and> ''friends'' \<in> fst ` set (ObjectType_fields starWarsRegistry [2] Human)
   \<and> (\<exists>name description interfaces mounted.
         graphQLTypes (setGraphQLType 3 humanObjectType starWarsRegistry) (cid Human)
           = Some (GraphQLObjectType name description interfaces mounted)
         \<and> mountFields sample_externals starWarsRegistry (ObjectType_fields starWarsRegistry [2] Human)
           = Inr mounted
         \<and> map fst mounted = map fst (ObjectType_fields starWarsRegistry [2] Human))"
proof -
  have f: "getFields starWarsRegistry (cid Human)
      = [(''homePlanet'', FieldThunk String no_config Human ''homePlanet''),
         (''name'', FieldThunk ID no_config Human ''name'')]"
    "getFields starWarsRegistry 2
      = [(''id'', FieldThunk ID no_config Character ''id''),
         (''name'', FieldThunk String no_config Character ''name''),
         (''friends'', FieldThunk String no_config Character ''friends'')]"
    by (simp_all add: getFields_def starWarsRegistry_def setGraphQLType_def starWarsFields_def
          emptyRegistry_def Human_def)
  have h: "distinct (map fst (getFields starWarsRegistry (cid Human)))
      \<and> (\<forall>i \<in> set [2]. distinct (map fst (getFields starWarsRegistry i)))"
    by (simp add: f)
  note c1 = C1_interface_fields_merged [where reg = starWarsRegistry and target = Human
      and ifaces = "[2]", THEN mp, OF h]
  have own: "map_of (getFields starWarsRegistry (cid Human)) ''name'' = Some (FieldThunk ID no_config Human ''name'')"
    by (simp add: f)
  have absent: "''id'' \<notin> fst ` set (getFields starWarsRegistry (cid Human))"
    by (simp add: f)
  have inherited: "(2::nat) \<in> set [2]" "''friends'' \<in> fst ` set (getFields starWarsRegistry 2)"
    by (simp_all add: f)
  have ok: "otc_interfaces humanOpts = Some [2]
      \<and> ObjectType sample_externals humanOpts Human starWarsRegistry
          = (Inr Human, setGraphQLType 3 humanObjectType starWarsRegistry)"
    using Human_decorated by (simp add: humanOpts_def)
  have w1: "map_of (ObjectType_fields starWarsRegistry [2] Human) ''name'' = Some (FieldThunk ID no_config Human ''name'')"
    using c1 [THEN conjunct2, THEN conjunct1, THEN spec, THEN spec, THEN mp, OF own] .
  have w2: "map_of (ObjectType_fields starWarsRegistry [2] Human) ''id''
       = map_of (allInterfaceFields starWarsRegistry [2]) ''id''"
    using c1 [THEN conjunct2, THEN conjunct2, THEN conjunct1, THEN spec, THEN mp, OF absent] .
  have w3: "''friends'' \<in> fst ` set (ObjectType_fields starWarsRegistry [2] Human)"
    using c1 [THEN conjunct2, THEN conjunct2, THEN conjunct2, THEN conjunct1, THEN bspec, OF inherited(1),
        THEN bspec, OF inherited(2)] .
  have w4: "\<exists>name description interfaces mounted.
         graphQLTypes (setGraphQLType 3 humanObjectType starWarsRegistry) (cid Human)
           = Some (GraphQLObjectType name description interfaces mounted)
         \<and> mountFields sample_externals starWarsRegistry (ObjectType_fields starWarsRegistry [2] Human)
           = Inr mounted
         \<and> map fst mounted = map fst (ObjectType_fields starWarsRegistry [2] Human)"
    using c1 [THEN conjunct2, THEN conjunct2, THEN conjunct2, THEN conjunct2,
        THEN spec, THEN spec, THEN spec, THEN spec, THEN mp, OF ok] .
  from w1 w2 w3 w4 show ?thesis by (intro conjI)
qed

lemma ObjectType_interfaces_valid:
  "\<forall>i \<in> set ifaces. \<exists>T. getGraphQLType ext reg (ClassRef i) = Inr T \<and> instanceof_GraphQLInterfaceType T
   \<Longrightarrow> \<exists>interfaces. ObjectType_interfaces ext reg ifaces = Inr interfaces
         \<and> map Inr interfaces = map (\<lambda>i. getGraphQLType ext reg (ClassRef i)) ifaces"
  by (induction ifaces) auto

lemma ObjectType_interfaces_result:
  "ObjectType_interfaces ext reg ifaces = Inr interfaces
   \<Longrightarrow> map Inr interfaces = map (\<lambda>i. getGraphQLType ext reg (ClassRef i)) ifaces"
  by (induction ifaces arbitrary: interfaces) (auto split: sum.splits if_splits)

lemma ObjectType_interfaces_first_invalid:
  assumes "\<forall>i \<in> set pre. \<exists>T. getGraphQLType ext reg (ClassRef i) = Inr T \<and> instanceof_GraphQLInterfaceType T"
    and "getGraphQLType ext reg (ClassRef iface) = Inr T" "\<not> instanceof_GraphQLInterfaceType T"
  shows "ObjectType_interfaces ext reg (pre @ iface # post) = Inl ProvidedInterfaceNotValid"
  using assms by (induction pre) auto

lemma ObjectType_interfaces_invalid:
  assumes res: "\<forall>i \<in> set ifaces. \<exists>T. getGraphQLType ext reg (ClassRef i) = Inr T"
    and bad: "\<exists>i \<in> set ifaces. \<exists>T. getGraphQLType ext reg (ClassRef i) = Inr T
        \<and> \<not> instanceof_GraphQLInterfaceType T"
  shows "ObjectType_interfaces ext reg ifaces = Inl ProvidedInterfaceNotValid"
proof -
  let ?bad = "\<lambda>i. \<exists>T. getGraphQLType ext reg (ClassRef i) = Inr T \<and> \<not> instanceof_GraphQLInterfaceType T"
  from bad obtain pre iface post where split: "ifaces = pre @ iface # post" "?bad iface"
    "\<forall>j \<in> set pre. \<not> ?bad j"
    by (auto simp: split_list_first_prop_iff)
  have "\<forall>i \<in> set pre. \<exists>T. getGraphQLType ext reg (ClassRef i) = Inr T \<and> instanceof_GraphQLInterfaceType T"
    using res split(1,3) by fastforce
  with split(2) show ?thesis unfolding split(1)
    by (auto intro: ObjectType_interfaces_first_invalid)
qed

lemma has_type_property_error: "has_type_property arg = Inl e \<Longrightarrow> e = TypeError"
  by (cases arg) auto

lemma Field_arg_error:
  "Field_arg ext reg argKey arg = Inl e \<Longrightarrow>
   e = TypeError \<or> (\<exists>msg. e = ReflectionError msg) \<or> (\<exists>argType. e = FieldArgumentNotInput argKey argType)"
  by (auto simp: Field_arg_def Field_arg_shape_def dest: has_type_property_error
        split: sum.splits if_splits prod.splits)

lemma Field_args_error:
  "Field_args ext reg args acc = Inl e \<Longrightarrow>
   e = TypeError \<or> (\<exists>msg. e = ReflectionError msg) \<or> (\<exists>argKey argType. e = FieldArgumentNotInput argKey argType)"
proof (induction args arbitrary: acc)
  case Nil
  then show ?case by simp
next
  case (Cons p args)
  obtain k a where p: "p = (k, a)" by (cases p)
  show ?case
  proof (cases "Field_arg ext reg k a")
    case (Inl e')
    with Cons.prems p have "e = e'" by simp
    with Field_arg_error [OF Inl] show ?thesis by blast
  next
    case (Inr c)
    with Cons.prems p have "Field_args ext reg args (AList.update k c acc) = Inl e" by simp
    then show ?thesis by (rule Cons.IH)
  qed
qed

lemma Field_thunk_error:
  "Field_thunk ext reg thunk = Inl e \<Longrightarrow> e \<noteq> ProvidedInterfaceNotValid"
proof (cases thunk)
  case (FieldThunk type config target key)
  assume "Field_thunk ext reg thunk = Inl e"
  with FieldThunk show ?thesis
    by (auto simp: Let_def split: sum.splits if_splits dest: Field_args_error)
qed

lemma mountFields_error:
  "mountFields ext reg fs = Inl e \<Longrightarrow> e \<noteq> ProvidedInterfaceNotValid"
  by (induction fs) (auto split: sum.splits dest: Field_thunk_error)

text \<open>
  Claim C5. For a class decorated with \<^verbatim>\<open>ObjectType\<close> whose config lists interfaces: if
  every listed entry has an external type and the type of some entry is not an interface
  type, the decorator throws \<open>ProvidedInterfaceNotValid\<close> and the registry is as before,
  so that no type is registered for the class; so it does at the first entry whose type
  is not an interface type, whatever the entries after it are. If the type of every entry is an interface
  type, that error is not thrown, and the object type that a successful decoration
  registers lists exactly those interface types, in order.
\<close>

theorem C5_invalid_interface_throws:
  "otc_interfaces opts = Some ifaces \<longrightarrow>
     ((\<forall>i \<in> set ifaces. \<exists>T. getGraphQLType ext reg (ClassRef i) = Inr T)
        \<and> (\<exists>i \<in> set ifaces. \<exists>T. getGraphQLType ext reg (ClassRef i) = Inr T
               \<and> \<not> instanceof_GraphQLInterfaceType T) \<longrightarrow>
        ObjectType ext opts target reg = (Inl ProvidedInterfaceNotValid, reg))
     \<and> (ifaces = pre @ iface # post
        \<and> (\<forall>i \<in> set pre. \<exists>T. getGraphQLType ext reg (ClassRef i) = Inr T
               \<and> instanceof_GraphQLInterfaceType T)
        \<and> getGraphQLType ext reg (ClassRef iface) = Inr B \<and> \<not> instanceof_GraphQLInterfaceType B \<longrightarrow>
        ObjectType ext opts target reg = (Inl ProvidedInterfaceNotValid, reg))
     \<and> ((\<forall>i \<in> set ifaces. \<exists>T. getGraphQLType ext reg (ClassRef i) = Inr T
               \<and> instanceof_GraphQLInterfaceType T) \<longrightarrow>
        fst (ObjectType ext opts target reg) \<noteq> Inl ProvidedInterfaceNotValid
        \<and> (\<forall>t reg'. ObjectType ext opts target reg = (Inr t, reg') \<longrightarrow>
              (\<exists>name description interfaces mounted.
                 graphQLTypes reg' (cid target) = Some (GraphQLObjectType name description interfaces mounted)
                 \<and> map Inr interfaces = map (\<lambda>i. getGraphQLType ext reg (ClassRef i)) ifaces)))"
proof (intro impI conjI; (elim conjE)?)
  assume opts: "otc_interfaces opts = Some ifaces"
  show "ObjectType ext opts target reg = (Inl ProvidedInterfaceNotValid, reg)"
    if "\<forall>i \<in> set ifaces. \<exists>T. getGraphQLType ext reg (ClassRef i) = Inr T"
      "\<exists>i \<in> set ifaces. \<exists>T. getGraphQLType ext reg (ClassRef i) = Inr T
               \<and> \<not> instanceof_GraphQLInterfaceType T"
    using ObjectType_interfaces_invalid [OF that] opts by (simp add: ObjectType_def)
  show "ObjectType ext opts target reg = (Inl ProvidedInterfaceNotValid, reg)"
    if "ifaces = pre @ iface # post"
      "\<forall>i \<in> set pre. \<exists>T. getGraphQLType ext reg (ClassRef i) = Inr T
               \<and> instanceof_GraphQLInterfaceType T"
      "getGraphQLType ext reg (ClassRef iface) = Inr B" "\<not> instanceof_GraphQLInterfaceType B"
    using ObjectType_interfaces_first_invalid [OF that(2-4), of post] opts that(1)
    by (simp add: ObjectType_def)
  assume valid: "\<forall>i \<in> set ifaces. \<exists>T. getGraphQLType ext reg (ClassRef i) = Inr T
               \<and> instanceof_GraphQLInterfaceType T"
  from ObjectType_interfaces_valid [OF valid] obtain interfaces where
    i: "ObjectType_interfaces ext reg ifaces = Inr interfaces" by blast
  show "fst (ObjectType ext opts target reg) \<noteq> Inl ProvidedInterfaceNotValid"
    using opts i
    by (auto simp: ObjectType_def Let_def split: option.splits sum.splits dest: mountFields_error)
  show "\<forall>t reg'. ObjectType ext opts target reg = (Inr t, reg') \<longrightarrow>
              (\<exists>name description interfaces mounted.
                 graphQLTypes reg' (cid target) = Some (GraphQLObjectType name description interfaces mounted)
                 \<and> map Inr interfaces = map (\<lambda>i. getGraphQLType ext reg (ClassRef i)) ifaces)"
  proof (intro allI impI)
    fix t reg' assume ok: "ObjectType ext opts target reg = (Inr t, reg')"
    from ObjectType_success [OF ok] opts obtain interfaces mounted where
      i: "ObjectType_interfaces ext reg ifaces = Inr interfaces"
      and r: "reg' = setGraphQLType (cid target)
         (GraphQLObjectType (or_name (otc_name opts) (className target))
            (or_string (otc_description opts) (getDescription reg (OfClass (cid target))))
            interfaces mounted) reg"
      by auto
    from r have "graphQLTypes reg' (cid target) = Some (GraphQLObjectType (or_name (otc_name opts) (className target))
            (or_string (otc_description opts) (getDescription reg (OfClass (cid target))))
            interfaces mounted)"
      by (simp only: graphQLTypes_setGraphQLType)
    with ObjectType_interfaces_result [OF i]
    show "\<exists>name description interfaces mounted.
                 graphQLTypes reg' (cid target) = Some (GraphQLObjectType name description interfaces mounted)
                 \<and> map Inr interfaces = map (\<lambda>i. getGraphQLType ext reg (ClassRef i)) ifaces"
      by blast
  qed
qed

theorem C5_invalid_interface_throws_witness:
  "ObjectType sample_externals droidOpts Droid humanRegistry = (Inl ProvidedInterfaceNotValid, humanRegistry)
   \<and> fst (ObjectType sample_externals humanOpts Human starWarsRegistry) \<noteq> Inl ProvidedInterfaceNotValid
   \<and> (\<exists>name description interfaces mounted.
         graphQLTypes (setGraphQLType 3 humanObjectType starWarsRegistry) (cid Human)
           = Some (GraphQLObjectType name description interfaces mounted)
         \<and> map Inr interfaces = map (\<lambda>i. getGraphQLType sample_externals starWarsRegistry (ClassRef i)) [2])"
proof -
  have t: "getGraphQLType sample_externals humanRegistry (ClassRef 2) = Inr characterType"
    "getGraphQLType sample_externals humanRegistry (ClassRef 3) = Inr humanObjectType"
    "getGraphQLType sample_externals starWarsRegistry (ClassRef 2) = Inr characterType"
    by (simp_all add: sample_externals_def humanRegistry_def starWarsRegistry_def setGraphQLType_def)
  have k: "instanceof_GraphQLInterfaceType characterType" "\<not> instanceof_GraphQLInterfaceType humanObjectType"
    by (simp_all add: characterType_def humanObjectType_def)
  have d: "otc_interfaces droidOpts = Some [2, 3]" by (simp add: droidOpts_def)
  have h: "otc_interfaces humanOpts = Some [2]" by (simp add: humanOpts_def)
  have invalid: "(\<forall>i \<in> set [2, 3]. \<exists>T. getGraphQLType sample_externals humanRegistry (ClassRef i) = Inr T)
        \<and> (\<exists>i \<in> set [2, 3]. \<exists>T. getGraphQLType sample_externals humanRegistry (ClassRef i) = Inr T
               \<and> \<not> instanceof_GraphQLInterfaceType T)"
    using t k by simp
  have valid: "\<forall>i \<in> set [2]. \<exists>T. getGraphQLType sample_externals starWarsRegistry (ClassRef i) = Inr T
               \<and> instanceof_GraphQLInterfaceType T"
    using t k by simp
  have first: "[2, 3] = [2] @ 3 # []
        \<and> (\<forall>i \<in> set [2]. \<exists>T. getGraphQLType sample_externals humanRegistry (ClassRef i) = Inr T
               \<and> instanceof_GraphQLInterfaceType T)
        \<and> getGraphQLType sample_externals humanRegistry (ClassRef 3) = Inr humanObjectType
        \<and> \<not> instanceof_GraphQLInterfaceType humanObjectType"
    using t k by simp
  have w1: "ObjectType sample_externals droidOpts Droid humanRegistry = (Inl ProvidedInterfaceNotValid, humanRegistry)"
    using C5_invalid_interface_throws [THEN mp, OF d, THEN conjunct1, THEN mp, OF invalid] .
  have w1': "ObjectType sample_externals droidOpts Droid humanRegistry = (Inl ProvidedInterfaceNotValid, humanRegistry)"
    using C5_invalid_interface_throws [THEN mp, OF d, THEN conjunct2, THEN conjunct1, THEN mp, OF first] .
  note v = C5_invalid_interface_throws [where target = Human, THEN mp, OF h, THEN conjunct2, THEN conjunct2,
      THEN mp, OF valid]
  have w2: "fst (ObjectType sample_externals humanOpts Human starWarsRegistry) \<noteq> Inl ProvidedInterfaceNotValid"
    using v [THEN conjunct1] .
  have w3: "\<exists>name description interfaces mounted.
         graphQLTypes (setGraphQLType 3 humanObjectType starWarsRegistry) (cid Human)
           = Some (GraphQLObjectType name description interfaces mounted)
         \<and> map Inr interfaces = map (\<lambda>i. getGraphQLType sample_externals starWarsRegistry (ClassRef i)) [2]"
    using v [THEN conjunct2, THEN spec, THEN spec, THEN mp, OF Human_decorated] .
  from w1 w1' w2 w3 show ?thesis by (intro conjI)
qed

lemma InterfaceType_success:
  assumes "InterfaceType ext opts target reg = (Inr t, reg')"
  shows "\<exists>mounted. mountFields ext reg (getFields reg (cid target)) = Inr mounted
     \<and> t = target
     \<and> reg' = setGraphQLType (cid target)
         (GraphQLInterfaceType (or_name (itc_name opts) (className target))
            (or_string (itc_description opts) (getDescription reg (OfClass (cid target))))
            (ResolveType (itc_resolveType opts)) mounted) reg"
  using assms by (auto simp: InterfaceType_def Let_def split: sum.splits option.splits)

lemma InputObjectType_success:
  assumes "InputObjectType ext opts target reg = (Inr t, reg')"
  shows "\<exists>mounted. mountInputFields ext reg (getInputFields reg (cid target)) = Inr mounted
     \<and> t = target
     \<and> reg' = setGraphQLType (cid target)
         (GraphQLInputObjectType (or_name (iotc_name opts) (className target))
            (or_string (iotc_description opts) (getDescription reg (OfClass (cid target))))
            mounted) reg"
  using assms by (auto simp: InputObjectType_def Let_def split: sum.splits option.splits)

text \<open>
  Claim C7. Each class decorator (\<^verbatim>\<open>ObjectType\<close>, \<^verbatim>\<open>InterfaceType\<close>,
  \<^verbatim>\<open>InputObjectType\<close>, \<^verbatim>\<open>EnumType\<close>), when it does not throw, returns the class it was
  applied to, and the registry it leaves is the one it found after one
  \<^verbatim>\<open>setGraphQLType\<close> of that class to the type just constructed: the pending field maps
  and the metadata are unchanged, and the type map is changed at that class only.
\<close>

theorem C7_class_decorators_write_once:
  "(ObjectType ext oopts target reg = (Inr t, reg') \<longrightarrow>
      t = target \<and> (\<exists>name description interfaces fields.
        reg' = setGraphQLType (cid target) (GraphQLObjectType name description interfaces fields) reg))
   \<and> (InterfaceType ext iopts target reg = (Inr t, reg') \<longrightarrow>
      t = target \<and> (\<exists>name description resolveType fields.
        reg' = setGraphQLType (cid target) (GraphQLInterfaceType name description resolveType fields) reg))
   \<and> (InputObjectType ext popts target reg = (Inr t, reg') \<longrightarrow>
      t = target \<and> (\<exists>name description fields.
        reg' = setGraphQLType (cid target) (GraphQLInputObjectType name description fields) reg))
   \<and> (EnumType eopts target reg = (Inr t, reg') \<longrightarrow>
      t = target \<and> (\<exists>name description values.
        reg' = setGraphQLType (cid target) (GraphQLEnumType name description values) reg))
   \<and> (\<forall>T. pendingFields (setGraphQLType (cid target) T reg) = pendingFields reg
        \<and> pendingInputFields (setGraphQLType (cid target) T reg) = pendingInputFields reg
        \<and> descriptions (setGraphQLType (cid target) T reg) = descriptions reg
        \<and> deprecationReasons (setGraphQLType (cid target) T reg) = deprecationReasons reg
        \<and> prototypes (setGraphQLType (cid target) T reg) = prototypes reg
        \<and> graphQLTypes (setGraphQLType (cid target) T reg) = (graphQLTypes reg)(cid target \<mapsto> T))"
proof (intro conjI impI allI)
  assume "ObjectType ext oopts target reg = (Inr t, reg')"
  from ObjectType_success [OF this]
  show "t = target" "\<exists>name description interfaces fields.
        reg' = setGraphQLType (cid target) (GraphQLObjectType name description interfaces fields) reg"
    by blast+
next
  assume "InterfaceType ext iopts target reg = (Inr t, reg')"
  from InterfaceType_success [OF this]
  show "t = target" "\<exists>name description resolveType fields.
        reg' = setGraphQLType (cid target) (GraphQLInterfaceType name description resolveType fields) reg"
    by blast+
next
  assume "InputObjectType ext popts target reg = (Inr t, reg')"
  from InputObjectType_success [OF this]
  show "t = target" "\<exists>name description fields.
        reg' = setGraphQLType (cid target) (GraphQLInputObjectType name description fields) reg"
    by blast+
next
  assume e: "EnumType eopts target reg = (Inr t, reg')"
  then show "t = target" by (simp add: EnumType_def)
  from e show "\<exists>name description values.
        reg' = setGraphQLType (cid target) (GraphQLEnumType name description values) reg"
    by (auto simp: EnumType_def)
qed (simp_all add: setGraphQLType_def)

theorem C7_class_decorators_write_once_witness:
  "(\<exists>name description interfaces fields.
      setGraphQLType 3 humanObjectType starWarsRegistry
        = setGraphQLType (cid Human) (GraphQLObjectType name description interfaces fields) starWarsRegistry)
   \<and> (\<exists>name description resolveType fields.
      starWarsRegistry
        = setGraphQLType (cid Character) (GraphQLInterfaceType name description resolveType fields) starWarsFields)
   \<and> (\<exists>name description fields.
      setGraphQLType 4 reviewInputObjectType reviewFields
        = setGraphQLType (cid ReviewInput) (GraphQLInputObjectType name description fields) reviewFields)
   \<and> (\<exists>name description values.
      setGraphQLType 1 episodeType episodeMetadata
        = setGraphQLType (cid Episode) (GraphQLEnumType name description values) episodeMetadata)"
proof -
  note c7 = C7_class_decorators_write_once [where ext = sample_externals]
  note a = c7 [THEN conjunct1, THEN mp, OF Human_decorated, THEN conjunct2]
  note b = c7 [THEN conjunct2, THEN conjunct1, THEN mp, OF Character_decorated, THEN conjunct2]
  note c = c7 [THEN conjunct2, THEN conjunct2, THEN conjunct1, THEN mp, OF ReviewInput_decorated, THEN conjunct2]
  note d = c7 [THEN conjunct2, THEN conjunct2, THEN conjunct2, THEN conjunct1, THEN mp, OF Episode_decorated,
      THEN conjunct2]
  from a b c d show ?thesis by (intro conjI)
qed

lemma map_of_fold_update:
  "map_of (fold (\<lambda>name values. AList.update name (f name) values) names acc) key
     = (if key \<in> set names then Some (f key) else map_of acc key)"
  by (induction names arbitrary: acc) (simp_all add: update_conv')

lemma keys_fold_update:
  "fst ` set (fold (\<lambda>name values. AList.update name (f name) values) names acc)
     = fst ` set acc \<union> set names"
  by (induction names arbitrary: acc) (auto simp: dom_update)

lemma set_getStaticProperties:
  "set (getStaticProperties target)
     = fst ` set (ownProperties target) - {''length'', ''name'', ''prototype''}"
  by (auto simp: getStaticProperties_def BaseClassProperties_def)

text \<open>
  Claim C9, amended. For a class decorated with \<^verbatim>\<open>EnumType\<close>, the value map of the
  registered enum has exactly the names of the class's own properties other than
  \<^verbatim>\<open>length\<close>, \<^verbatim>\<open>name\<close> and \<^verbatim>\<open>prototype\<close>; the entry of each name has the value of that
  property and the description and deprecation reason of its metadata. The enum is named
  \<^verbatim>\<open>opts.name\<close> when that is given and is not the empty string, otherwise by the class's
  name.
\<close>

theorem C9_enum_values_and_name:
  "EnumType opts target reg =
     (Inr target,
      setGraphQLType (cid target)
        (GraphQLEnumType
           (case etc_name opts of
              None \<Rightarrow> className target
            | Some name \<Rightarrow> if name = [] then className target else name)
           (or_string (etc_description opts) (getDescription reg (OfClass (cid target))))
           (EnumType_values reg target))
        reg)
   \<and> fst ` set (EnumType_values reg target)
       = fst ` set (ownProperties target) - {''length'', ''name'', ''prototype''}
   \<and> (\<forall>name \<in> fst ` set (ownProperties target) - {''length'', ''name'', ''prototype''}.
         map_of (EnumType_values reg target) name
           = Some (GraphQLEnumValueConfig
                     (get_property (ownProperties target) name)
                     (getDescription reg (OfStatic (cid target) name))
                     (getDeprecationReason reg (OfStatic (cid target) name))))"
proof (intro conjI ballI)
  show "EnumType opts target reg =
     (Inr target,
      setGraphQLType (cid target)
        (GraphQLEnumType
           (case etc_name opts of
              None \<Rightarrow> className target
            | Some name \<Rightarrow> if name = [] then className target else name)
           (or_string (etc_description opts) (getDescription reg (OfClass (cid target))))
           (EnumType_values reg target))
        reg)"
    by (simp add: EnumType_def or_name_def)
  show "fst ` set (EnumType_values reg target)
       = fst ` set (ownProperties target) - {''length'', ''name'', ''prototype''}"
    unfolding EnumType_values_def keys_fold_update set_getStaticProperties by simp
  fix name assume "name \<in> fst ` set (ownProperties target) - {''length'', ''name'', ''prototype''}"
  then have "name \<in> set (getStaticProperties target)"
    by (simp only: set_getStaticProperties)
  then show "map_of (EnumType_values reg target) name
           = Some (GraphQLEnumValueConfig
                     (get_property (ownProperties target) name)
                     (getDescription reg (OfStatic (cid target) name))
                     (getDeprecationReason reg (OfStatic (cid target) name)))"
    unfolding EnumType_values_def by (simp add: map_of_fold_update)
qed

theorem C9_enum_values_and_name_witness:
  "map_of (EnumType_values episodeMetadata Episode) ''EMPIRE''
     = Some (GraphQLEnumValueConfig (JSNumber 5) (Some ''Released in 1980.'') None)
   \<and> EnumType episodeOpts Episode episodeMetadata
     = (Inr Episode,
        setGraphQLType 1
          (GraphQLEnumType ''Episode'' (Some ''The description'') (EnumType_values episodeMetadata Episode))
          episodeMetadata)"
proof -
  note c9 = C9_enum_values_and_name [where reg = episodeMetadata and target = Episode and opts = episodeOpts]
  have mem: "''EMPIRE'' \<in> fst ` set (ownProperties Episode) - {''length'', ''name'', ''prototype''}"
    by (simp add: Episode_def)
  have v: "get_property (ownProperties Episode) ''EMPIRE'' = JSNumber 5"
    "getDescription episodeMetadata (OfStatic (cid Episode) ''EMPIRE'') = Some ''Released in 1980.''"
    "getDeprecationReason episodeMetadata (OfStatic (cid Episode) ''EMPIRE'') = None"
    "getDescription episodeMetadata (OfClass (cid Episode)) = Some ''The description''"
    "className Episode = ''Episode''"
    by (simp_all add: Episode_def get_property_def getDescription_def getDeprecationReason_def
          episodeMetadata_def emptyRegistry_def)
  have w1: "map_of (EnumType_values episodeMetadata Episode) ''EMPIRE''
     = Some (GraphQLEnumValueConfig (JSNumber 5) (Some ''Released in 1980.'') None)"
    using c9 [THEN conjunct2, THEN conjunct2, THEN bspec, OF mem] by (simp only: v)
  have w2: "EnumType episodeOpts Episode episodeMetadata
     = (Inr Episode,
        setGraphQLType 1
          (GraphQLEnumType ''Episode'' (Some ''The description'') (EnumType_values episodeMetadata Episode))
          episodeMetadata)"
  proof -
    have o: "etc_name episodeOpts = None" "etc_description episodeOpts = None"
      by (simp_all add: episodeOpts_def)
    have c: "cid Episode = 1" by (simp add: Episode_def)
    from c9 [THEN conjunct1] have "EnumType episodeOpts Episode episodeMetadata
     = (Inr Episode,
        setGraphQLType (cid Episode)
          (GraphQLEnumType ''Episode'' (Some ''The description'') (EnumType_values episodeMetadata Episode))
          episodeMetadata)"
      by (simp only: v o or_string_def option.case)
    then show ?thesis by (simp only: c)
  qed
  from w1 w2 show ?thesis by (intro conjI)
qed

text \<open>
  Claim C9 as stated names the enum \<^verbatim>\<open>opts.name\<close> whenever it is given. With
  \<^verbatim>\<open>opts.name\<close> given as the empty string, \<^verbatim>\<open>opts.name || target.name\<close> is the class's
  name: the enum registered for \<^verbatim>\<open>Episode\<close> is named \<^verbatim>\<open>Episode\<close>.
\<close>

theorem C9_empty_name_counterexample:
  "etc_name unnamedOpts = Some ''''
   \<and> graphQLTypes (snd (EnumType unnamedOpts Episode episodeMetadata)) (cid Episode) = Some episodeType
   \<and> episodeType = GraphQLEnumType ''Episode'' (Some ''The description'')
       [(''NEWHOPE'', GraphQLEnumValueConfig (JSNumber 4) (Some ''Released in 1977.'') None),
        (''EMPIRE'', GraphQLEnumValueConfig (JSNumber 5) (Some ''Released in 1980.'') None),
        (''JEDI'', GraphQLEnumValueConfig (JSNumber 6) (Some ''Released in 1983.'') None)]
   \<and> ''Episode'' \<noteq> ''''"
  unfolding EnumType_def Episode_values
  by (simp add: unnamedOpts_def Episode_def episodeMetadata_def emptyRegistry_def getDescription_def
        or_name_def or_string_def episodeType_def setGraphQLType_def)

section \<open>Properties of the schema object\<close>

text \<open>
  Claim C8. For every schema object, \<^verbatim>\<open>toString()\<close> is the output of the library's
  schema printer on the assembled schema, and \<^verbatim>\<open>execute(queryString)\<close> is the result of the
  library's executor on that schema and that query string.
\<close>

theorem C8_schema_delegates:
  "toString lib s = printSchema lib (schema_assembled s)
   \<and> execute lib s queryString = graphql lib (schema_assembled s) queryString"
  by (simp add: toString_def execute_def)

end
